theory Spec2Isabelle
  imports Complex_Main
begin

section \<open>Numbers, arrays and objects of the source language\<close>

text \<open>
  The program is JavaScript. Its numbers are modelled as \<^typ>\<open>real\<close>, without
  \<open>NaN\<close> or the infinities. Unless said otherwise the arithmetic of the source (\<open>+\<close>,
  \<open>-\<close>, \<open>*\<close>, \<open>/\<close>, \<open>Math.sqrt\<close>, \<open>Math.floor\<close>, \<open>Math.min\<close>, \<open>Math.max\<close>)
  is read as exact arithmetic. Where a theorem below involves a division of the source,
  its divisor is not zero.
\<close>

text \<open>
  In \<open>getElevationAt\<close> the result depends on the floor of a product that is rounded,
  so there every arithmetic result is rounded as the machine rounds it. \<open>ieee\<close> rounds
  a real to the nearest number with 53 significant bits, ties to the even one, with no
  bound on the exponent: the rounding of IEEE 754 double precision wherever the result
  is in the normal range. \<open>pow2 e\<close> is the power \<open>2\<^sup>e\<close> for a whole number \<open>e\<close>.
\<close>

definition pow2 :: "int \<Rightarrow> real" where
  "pow2 e = (if 0 \<le> e then 2 ^ nat e else 1 / 2 ^ nat (- e))"

definition roundHalfEven :: "real \<Rightarrow> int" where
  "roundHalfEven t =
     (let f = \<lfloor>t\<rfloor>; r = t - of_int f
      in if r < 1 / 2 then f else if 1 / 2 < r then f + 1 else if even f then f else f + 1)"

definition ieee :: "real \<Rightarrow> real" where
  "ieee y =
     (if y = 0 then 0
      else let e = \<lfloor>log 2 \<bar>y\<bar>\<rfloor>; ulp = pow2 (e - 52)
           in of_int (roundHalfEven (y / ulp)) * ulp)"

text \<open>
  \<open>a[i]\<close> on an array: the element when \<open>i\<close> is a whole number within range,
  \<open>undefined\<close> (here \<open>None\<close>) for every other number.
\<close>

definition js_get :: "real list \<Rightarrow> real \<Rightarrow> real option" where
  "js_get a i =
     (if 0 \<le> i \<and> i = of_int \<lfloor>i\<rfloor> \<and> nat \<lfloor>i\<rfloor> < length a
      then Some (a ! nat \<lfloor>i\<rfloor>) else None)"

text \<open>
  \<open>v || 0\<close>: \<open>undefined\<close> becomes 0, a number stays itself (the falsy number 0 is
  replaced by 0).
\<close>

definition or0 :: "real option \<Rightarrow> real" where
  "or0 v = (case v of None \<Rightarrow> 0 | Some r \<Rightarrow> r)"

section \<open>ViimsiMapLoader: the bounding box\<close>

record GeoBounds =
  north :: real
  south :: real
  east :: real
  west :: real

definition viimsiParishBounds :: GeoBounds where
  "viimsiParishBounds =
     \<lparr>north = 595167 / 10000, south = 594167 / 10000,
      east = 248333 / 10000, west = 247000 / 10000\<rparr>"

section \<open>MapDataManager: coordinate transformation\<close>

record CoordinateTransform =
  gameWorldSize :: real
  realWorldBounds :: GeoBounds

definition coordinateTransform :: CoordinateTransform where
  "coordinateTransform = \<lparr>gameWorldSize = 2000, realWorldBounds = viimsiParishBounds\<rparr>"

record GameCoords =
  game_x :: real
  game_z :: real

record RealCoords =
  real_lat :: real
  real_lon :: real

definition realWorldToGameWorld :: "CoordinateTransform \<Rightarrow> real \<Rightarrow> real \<Rightarrow> GameCoords" where
  "realWorldToGameWorld ct lat lon =
     (let bounds = realWorldBounds ct;
          normalizedX = (lon - west bounds) / (east bounds - west bounds);
          normalizedZ = (lat - south bounds) / (north bounds - south bounds);
          gameX = (normalizedX - 0.5) * gameWorldSize ct;
          gameZ = (normalizedZ - 0.5) * gameWorldSize ct
      in \<lparr>game_x = gameX, game_z = gameZ\<rparr>)"

definition gameWorldToRealWorld :: "CoordinateTransform \<Rightarrow> real \<Rightarrow> real \<Rightarrow> RealCoords" where
  "gameWorldToRealWorld ct x z =
     (let bounds = realWorldBounds ct;
          normalizedX = (x / gameWorldSize ct) + 0.5;
          normalizedZ = (z / gameWorldSize ct) + 0.5;
          lon = west bounds + normalizedX * (east bounds - west bounds);
          lat = south bounds + normalizedZ * (north bounds - south bounds)
      in \<lparr>real_lat = lat, real_lon = lon\<rparr>)"

text \<open>The composition of the two directions, as the round-trip test of the repository runs it.\<close>

definition roundTrip :: "CoordinateTransform \<Rightarrow> real \<Rightarrow> real \<Rightarrow> RealCoords" where
  "roundTrip ct lat lon =
     (let gameCoords = realWorldToGameWorld ct lat lon
      in gameWorldToRealWorld ct (game_x gameCoords) (game_z gameCoords))"

definition isInViimsiParish :: "real \<Rightarrow> real \<Rightarrow> bool" where
  "isInViimsiParish lat lon =
     (let bounds = viimsiParishBounds
      in lat \<ge> south bounds \<and> lat \<le> north bounds \<and> lon \<ge> west bounds \<and> lon \<le> east bounds)"

section \<open>Road width tables\<close>

text \<open>
  Both tables are object literals read with \<open>widths[key] || 4\<close>. A property read on an
  object literal finds the literal's own properties first and then the members that every
  object inherits from \<open>Object.prototype\<close>; those are functions or objects, hence truthy,
  and \<open>||\<close> returns them unchanged. The result of a read is therefore a number or an
  inherited member, named by its key.
\<close>

datatype js_value = Number real | Inherited string

definition objectPrototypeMembers :: "string list" where
  "objectPrototypeMembers =
     [''constructor'', ''__proto__'', ''hasOwnProperty'', ''isPrototypeOf'',
      ''propertyIsEnumerable'', ''toLocaleString'', ''toString'', ''valueOf'',
      ''__defineGetter__'', ''__defineSetter__'', ''__lookupGetter__'', ''__lookupSetter__'']"

definition js_prop :: "(string \<times> real) list \<Rightarrow> string \<Rightarrow> js_value option" where
  "js_prop obj key =
     (case map_of obj key of
        Some r \<Rightarrow> Some (Number r)
      | None \<Rightarrow> if key \<in> set objectPrototypeMembers then Some (Inherited key) else None)"

text \<open>\<open>v || d\<close> for a number \<open>d\<close>: \<open>undefined\<close> and the number 0 give \<open>d\<close>.\<close>

definition or_number :: "js_value option \<Rightarrow> real \<Rightarrow> js_value" where
  "or_number v d =
     (case v of
        None \<Rightarrow> Number d
      | Some (Number r) \<Rightarrow> if r = 0 then Number d else Number r
      | Some (Inherited k) \<Rightarrow> Inherited k)"

text \<open>\<open>ViimsiMapLoader.estimateRoadWidth\<close>.\<close>

definition estimateRoadWidth :: "string \<Rightarrow> js_value" where
  "estimateRoadWidth highway =
     (let widths =
            [(''primary'', 8), (''secondary'', 6), (''tertiary'', 5), (''residential'', 4),
             (''service'', 3), (''footway'', 2), (''cycleway'', 2), (''path'', 1.5)]
      in or_number (js_prop widths highway) 4)"

text \<open>\<open>MapDataManager.getRoadWidth\<close>.\<close>

definition getRoadWidth :: "string \<Rightarrow> js_value" where
  "getRoadWidth roadType =
     (let widths =
            [(''motorway'', 12), (''trunk'', 10), (''primary'', 8), (''secondary'', 6),
             (''tertiary'', 5), (''residential'', 4), (''service'', 3), (''footway'', 1.5),
             (''path'', 1)]
      in or_number (js_prop widths roadType) 4)"

section \<open>ViimsiMapLoader: loading the four datasets\<close>

text \<open>
  The raw records that the loader produces, with the fields that the transformation in
  \<open>MapDataManager\<close> reads. A field that may be absent is an option.
\<close>

record RawBuilding =
  rb_name :: string
  rb_lat :: "real option"
  rb_lon :: "real option"
  rb_geometry :: "RealCoords list option"
  rb_height :: "real option"

record RawRoad =
  rr_name :: string
  rr_type :: string
  rr_geometry :: "RealCoords list option"

record RawForest =
  rf_name :: string
  rf_bounds :: GeoBounds

record RawMapData =
  raw_elevation :: "real list option"
  raw_buildings :: "RawBuilding list"
  raw_roads :: "RawRoad list"
  raw_forests :: "RawForest list"
  raw_bounds :: GeoBounds
  raw_timestamp :: real

datatype error = Error string

definition message :: "error \<Rightarrow> string" where
  "message e = (case e of Error m \<Rightarrow> m)"

text \<open>
  An element of the array that \<open>Promise.allSettled\<close> resolves to: a promise that
  fulfilled or one that rejected. \<open>allSettled\<close> itself never rejects.
\<close>

datatype 'a settled = Fulfilled 'a | RejectedWith error

definition settle :: "error + 'a \<Rightarrow> 'a settled" where
  "settle r = (case r of Inl e \<Rightarrow> RejectedWith e | Inr v \<Rightarrow> Fulfilled v)"

text \<open>
  The value of a fulfilled list promise is an array, or \<open>null\<close>/\<open>undefined\<close> (\<open>None\<close>)
  when a cache entry holds no data. \<open>loadViimsiData\<close> stores
  \<open>p.status === 'fulfilled' ? p.value : []\<close> in the record and then logs \<open>p.value.length\<close>
  of a fulfilled promise; on \<open>null\<close> that read throws a \<open>TypeError\<close> (an \<open>Error\<close> whose
  message depends on the engine). A rejected promise is logged through
  \<open>reason?.message\<close>, which does not throw. The function below gives the array that
  reaches the record, or the error of the \<open>length\<close> read.
\<close>

definition typeError :: error where
  "typeError = Error ''Cannot read properties of null''"

definition settledList :: "'a list option settled \<Rightarrow> error + 'a list" where
  "settledList p =
     (case p of
        Fulfilled None \<Rightarrow> Inl typeError
      | Fulfilled (Some xs) \<Rightarrow> Inr xs
      | RejectedWith e \<Rightarrow> Inr [])"

text \<open>
  \<open>loadViimsiData\<close>, given the outcomes of the four fetches and the value of
  \<open>Date.now()\<close>. The elevation value is stored without being inspected. An exception
  inside the \<open>try\<close> block is caught and thrown again as a new \<open>Error\<close>.
\<close>

definition loadViimsiData ::
  "error + real list option \<Rightarrow> error + RawBuilding list option \<Rightarrow> error + RawRoad list option
     \<Rightarrow> error + RawForest list option \<Rightarrow> real \<Rightarrow> error + RawMapData" where
  "loadViimsiData fetchElevationData fetchBuildingData fetchRoadData fetchForestData now =
     (let elevation = settle fetchElevationData;
          buildings = settle fetchBuildingData;
          roads = settle fetchRoadData;
          forests = settle fetchForestData;
          body =
            (case settledList buildings of
               Inl e \<Rightarrow> Inl e
             | Inr bs \<Rightarrow>
                 (case settledList roads of
                    Inl e \<Rightarrow> Inl e
                  | Inr rs \<Rightarrow>
                      (case settledList forests of
                         Inl e \<Rightarrow> Inl e
                       | Inr fs \<Rightarrow>
                           Inr \<lparr>raw_elevation =
                                  (case elevation of Fulfilled v \<Rightarrow> v | RejectedWith _ \<Rightarrow> None),
                                raw_buildings = bs,
                                raw_roads = rs,
                                raw_forests = fs,
                                raw_bounds = viimsiParishBounds,
                                raw_timestamp = now\<rparr>)))
      in case body of
           Inr mapData \<Rightarrow> Inr mapData
         | Inl e \<Rightarrow> Inl (Error (''Map data loading failed: '' @ message e)))"

section \<open>MapDataManager: the transformed snapshot\<close>

record Position3 =
  pos_x :: real
  pos_y :: real
  pos_z :: real

record OptCoords =
  opt_lat :: "real option"
  opt_lon :: "real option"

text \<open>A transformed record keeps the raw record (the spread in the source) and adds fields.\<close>

record Building =
  b_raw :: RawBuilding
  gamePosition :: Position3
  gameHeight :: real
  realWorldCoords :: OptCoords

record RoadPoint =
  pt_x :: real
  pt_z :: real
  realLat :: real
  realLon :: real

record Road =
  r_raw :: RawRoad
  gameGeometry :: "RoadPoint list"
  width :: js_value

record GameBounds =
  minX :: real
  maxX :: real
  minZ :: real
  maxZ :: real

record Forest =
  f_raw :: RawForest
  gameBounds :: GameBounds
  f_realWorldBounds :: GeoBounds

record MapData =
  elevation :: "real list option"
  buildings :: "Building list"
  roads :: "Road list"
  forests :: "Forest list"
  bounds :: GeoBounds
  gameWorldBounds :: GameBounds
  timestamp :: real

text \<open>A number used as a condition: absent and 0 are falsy.\<close>

definition truthy :: "real option \<Rightarrow> bool" where
  "truthy v = (case v of None \<Rightarrow> False | Some r \<Rightarrow> r \<noteq> 0)"

definition transformElevationData :: "real list option \<Rightarrow> real list option" where
  "transformElevationData elevationData =
     (case elevationData of None \<Rightarrow> None | Some e \<Rightarrow> Some (map (\<lambda>h. h) e))"

definition transformBuilding :: "CoordinateTransform \<Rightarrow> RawBuilding \<Rightarrow> Building" where
  "transformBuilding ct building =
     (let gameCoords =
            (if truthy (rb_lat building) \<and> truthy (rb_lon building)
             then realWorldToGameWorld ct (the (rb_lat building)) (the (rb_lon building))
             else case rb_geometry building of
                    Some (firstPoint # _) \<Rightarrow>
                      realWorldToGameWorld ct (real_lat firstPoint) (real_lon firstPoint)
                  | _ \<Rightarrow> \<lparr>game_x = 0, game_z = 0\<rparr>)
      in \<lparr>b_raw = building,
          gamePosition =
            \<lparr>pos_x = game_x gameCoords,
             pos_y = (if truthy (rb_height building) then the (rb_height building) / 2 else 3),
             pos_z = game_z gameCoords\<rparr>,
          gameHeight = (if truthy (rb_height building) then the (rb_height building) else 6),
          realWorldCoords = \<lparr>opt_lat = rb_lat building, opt_lon = rb_lon building\<rparr>\<rparr>)"

definition transformBuildingData :: "CoordinateTransform \<Rightarrow> RawBuilding list \<Rightarrow> Building list" where
  "transformBuildingData ct bs = map (transformBuilding ct) bs"

definition transformRoad :: "CoordinateTransform \<Rightarrow> RawRoad \<Rightarrow> Road" where
  "transformRoad ct road =
     (let gameGeometry =
            (case rr_geometry road of
               Some geometry \<Rightarrow>
                 map (\<lambda>point.
                        let gameCoords = realWorldToGameWorld ct (real_lat point) (real_lon point)
                        in \<lparr>pt_x = game_x gameCoords, pt_z = game_z gameCoords,
                            realLat = real_lat point, realLon = real_lon point\<rparr>) geometry
             | None \<Rightarrow> [])
      in \<lparr>r_raw = road, gameGeometry = gameGeometry, width = getRoadWidth (rr_type road)\<rparr>)"

definition transformRoadData :: "CoordinateTransform \<Rightarrow> RawRoad list \<Rightarrow> Road list" where
  "transformRoadData ct rs = map (transformRoad ct) rs"

definition transformForest :: "CoordinateTransform \<Rightarrow> RawForest \<Rightarrow> Forest" where
  "transformForest ct forest =
     (let bounds = rf_bounds forest;
          gameNorthWest = realWorldToGameWorld ct (north bounds) (west bounds);
          gameSouthEast = realWorldToGameWorld ct (south bounds) (east bounds)
      in \<lparr>f_raw = forest,
          gameBounds =
            \<lparr>minX = min (game_x gameNorthWest) (game_x gameSouthEast),
             maxX = max (game_x gameNorthWest) (game_x gameSouthEast),
             minZ = min (game_z gameNorthWest) (game_z gameSouthEast),
             maxZ = max (game_z gameNorthWest) (game_z gameSouthEast)\<rparr>,
          f_realWorldBounds = bounds\<rparr>)"

definition transformForestData :: "CoordinateTransform \<Rightarrow> RawForest list \<Rightarrow> Forest list" where
  "transformForestData ct fs = map (transformForest ct) fs"

text \<open>The record that \<open>loadMapData\<close> stores in \<open>this.mapData\<close> from the raw data.\<close>

definition transformMapData :: "CoordinateTransform \<Rightarrow> RawMapData \<Rightarrow> MapData" where
  "transformMapData ct rawMapData =
     \<lparr>elevation = transformElevationData (raw_elevation rawMapData),
      buildings = transformBuildingData ct (raw_buildings rawMapData),
      roads = transformRoadData ct (raw_roads rawMapData),
      forests = transformForestData ct (raw_forests rawMapData),
      bounds = raw_bounds rawMapData,
      gameWorldBounds = \<lparr>minX = - 1000, maxX = 1000, minZ = - 1000, maxZ = 1000\<rparr>,
      timestamp = raw_timestamp rawMapData\<rparr>"

section \<open>MapDataManager: spatial queries\<close>

text \<open>
  The queries read \<open>this.mapData\<close>, which is \<open>null\<close> (\<open>None\<close>) until a load has
  succeeded. The lists of a snapshot are always arrays.
\<close>

definition getBuildingsInArea :: "MapData option \<Rightarrow> real \<Rightarrow> real \<Rightarrow> real \<Rightarrow> Building list" where
  "getBuildingsInArea mapData centerX centerZ radius =
     (case mapData of
        None \<Rightarrow> []
      | Some md \<Rightarrow>
          filter (\<lambda>building.
                    let dx = pos_x (gamePosition building) - centerX;
                        dz = pos_z (gamePosition building) - centerZ;
                        distance = sqrt (dx * dx + dz * dz)
                    in distance \<le> radius) (buildings md))"

definition getRoadsInArea :: "MapData option \<Rightarrow> real \<Rightarrow> real \<Rightarrow> real \<Rightarrow> Road list" where
  "getRoadsInArea mapData centerX centerZ radius =
     (case mapData of
        None \<Rightarrow> []
      | Some md \<Rightarrow>
          filter (\<lambda>road.
                    list_ex (\<lambda>point.
                               let dx = pt_x point - centerX;
                                   dz = pt_z point - centerZ;
                                   distance = sqrt (dx * dx + dz * dz)
                               in distance \<le> radius) (gameGeometry road)) (roads md))"

text \<open>
  The conversion of a game world coordinate to the range from 0 to 1, as
  \<open>getElevationAt\<close> writes it for both axes: \<open>(x + 1000) / 2000\<close>, the sum and the
  quotient each rounded.
\<close>

definition normalizedCoord :: "real \<Rightarrow> real" where
  "normalizedCoord x = ieee (ieee (x + 1000) / 2000)"

text \<open>
  \<open>getElevationAt\<close>. The length of an array is a whole number below \<open>2\<^sup>5\<^sup>3\<close> and is
  exact; \<open>Math.sqrt\<close> gives the rounded square root; \<open>Math.floor\<close>, \<open>Math.min\<close> and
  \<open>Math.max\<close> are exact. For arguments that are doubles no result below is subnormal.
  A product too large for a double is the infinity in the machine and a large number
  here; \<open>Math.min\<close> replaces either by \<open>size - 1\<close>.
\<close>

definition getElevationAt :: "MapData option \<Rightarrow> real \<Rightarrow> real \<Rightarrow> real" where
  "getElevationAt mapData x z =
     (case mapData of
        None \<Rightarrow> 0
      | Some md \<Rightarrow>
          (case elevation md of
             None \<Rightarrow> 0
           | Some elev \<Rightarrow>
               let sz = ieee (sqrt (real (length elev)));
                   normalizedX = normalizedCoord x;
                   normalizedZ = normalizedCoord z;
                   mapX = of_int \<lfloor>ieee (normalizedX * sz)\<rfloor>;
                   mapZ = of_int \<lfloor>ieee (normalizedZ * sz)\<rfloor>;
                   clampedX = max 0 (min (ieee (sz - 1)) mapX);
                   clampedZ = max 0 (min (ieee (sz - 1)) mapZ);
                   index = ieee (ieee (clampedZ * sz) + clampedX)
               in or0 (js_get elev index)))"

text \<open>
  The grid index that the specification of \<open>getElevationAt\<close> describes for one axis of a
  raster of side \<open>n\<close>: the world coordinate is mapped to the range from 0 to 1, scaled
  to the grid, floored, and clamped to the indices from 0 to \<open>n - 1\<close>, in the arithmetic
  of the machine. This definition follows the words of the specification; the theorem on
  \<open>getElevationAt\<close> compares the code with it. \<open>gridCoord\<close> is the position of the
  coordinate on the grid in exact arithmetic, where the cell \<open>c\<close> reaches from \<open>c\<close> to
  \<open>c + 1\<close>.
\<close>

definition clampedCell :: "nat \<Rightarrow> real \<Rightarrow> nat" where
  "clampedCell n x =
     nat (max 0 (min (int n - 1) \<lfloor>ieee (normalizedCoord x * real n)\<rfloor>))"

definition gridCoord :: "nat \<Rightarrow> real \<Rightarrow> real" where
  "gridCoord n x = (x + 1000) / 2000 * real n"

text \<open>A raster of six samples, as an image of three by two samples gives.\<close>

definition sixSamples :: "real list" where
  "sixSamples = [1, 2, 3, 4, 5, 6]"

record LocationInfo =
  li_gameCoords :: GameCoords
  li_realWorldCoords :: RealCoords
  li_elevation :: real
  nearbyBuildings :: "Building list"
  nearbyRoads :: "Road list"
  inViimsiParish :: bool

text \<open>\<open>slice(0, n)\<close> keeps the first \<open>n\<close> elements, in the order of the array.\<close>

definition getLocationInfo :: "CoordinateTransform \<Rightarrow> MapData option \<Rightarrow> real \<Rightarrow> real \<Rightarrow> LocationInfo" where
  "getLocationInfo ct mapData x z =
     (let realWorldCoords = gameWorldToRealWorld ct x z;
          elevation = getElevationAt mapData x z;
          nearbyBuildings = getBuildingsInArea mapData x z 100;
          nearbyRoads = getRoadsInArea mapData x z 50
      in \<lparr>li_gameCoords = \<lparr>game_x = x, game_z = z\<rparr>,
          li_realWorldCoords = realWorldCoords,
          li_elevation = elevation,
          nearbyBuildings = take 5 nearbyBuildings,
          nearbyRoads = take 3 nearbyRoads,
          inViimsiParish =
            isInViimsiParish (real_lat realWorldCoords) (real_lon realWorldCoords)\<rparr>)"

text \<open>A snapshot with the given raster, buildings and roads, and no forests.\<close>

definition snapshotWith :: "real list option \<Rightarrow> Building list \<Rightarrow> Road list \<Rightarrow> MapData" where
  "snapshotWith elev bs rs =
     \<lparr>elevation = elev, buildings = bs, roads = rs, forests = [],
      bounds = viimsiParishBounds,
      gameWorldBounds = \<lparr>minX = - 1000, maxX = 1000, minZ = - 1000, maxZ = 1000\<rparr>,
      timestamp = 0\<rparr>"

text \<open>
  Raw data with six buildings on the meridian through the middle of the bounding box:
  five of them 80 game units north of the middle, listed first, and one in the middle.
\<close>

definition rawBuildingAt :: "string \<Rightarrow> real \<Rightarrow> real \<Rightarrow> RawBuilding" where
  "rawBuildingAt name lat lon =
     \<lparr>rb_name = name, rb_lat = Some lat, rb_lon = Some lon, rb_geometry = None,
      rb_height = None\<rparr>"

definition sixBuildingsRaw :: RawMapData where
  "sixBuildingsRaw =
     \<lparr>raw_elevation = None,
      raw_buildings =
        [rawBuildingAt ''Far 1'' (594707 / 10000) (495333 / 20000),
         rawBuildingAt ''Far 2'' (594707 / 10000) (495333 / 20000),
         rawBuildingAt ''Far 3'' (594707 / 10000) (495333 / 20000),
         rawBuildingAt ''Far 4'' (594707 / 10000) (495333 / 20000),
         rawBuildingAt ''Far 5'' (594707 / 10000) (495333 / 20000),
         rawBuildingAt ''Near'' (594667 / 10000) (495333 / 20000)],
      raw_roads = [],
      raw_forests = [],
      raw_bounds = viimsiParishBounds,
      raw_timestamp = 0\<rparr>"


definition buildingName :: "Building \<Rightarrow> string" where
  "buildingName b = rb_name (b_raw b)"

section \<open>MapDataManager: loading\<close>

text \<open>
  \<open>loadMapData\<close> is an asynchronous function. A call runs without interruption up to
  its first \<open>await\<close>, is suspended there, and each later part runs without interruption
  when the awaited promise settles; nothing else runs in between, since there is one
  thread. A call is therefore in one of three states: suspended at
  \<open>await this.mapLoader.loadViimsiData()\<close>, suspended at the timer inside the
  \<open>while (this.isLoading)\<close> loop, or settled with its result.
\<close>

datatype call_state =
    AwaitLoader
  | AwaitTimer
  | Done "MapData option settled"

record Manager =
  mapData :: "MapData option"
  isLoading :: bool
  loaderCalls :: nat \<comment> \<open>how often \<open>loadViimsiData\<close> has been called\<close>
  calls :: "call_state list" \<comment> \<open>the calls of \<open>loadMapData\<close> so far, oldest first\<close>

text \<open>
  What can happen next: \<open>loadMapData\<close> is called; the loader promise that call \<open>k\<close>
  awaits settles with an outcome; the timer that call \<open>k\<close> awaits fires.
\<close>

datatype event =
    Call
  | LoaderSettles nat "error + RawMapData"
  | TimerFires nat

definition step :: "CoordinateTransform \<Rightarrow> event \<Rightarrow> Manager \<Rightarrow> Manager option" where
  "step ct ev m =
     (case ev of
        Call \<Rightarrow>
          if isLoading m then Some (m\<lparr>calls := calls m @ [AwaitTimer]\<rparr>)
          else Some (m\<lparr>isLoading := True,
                       loaderCalls := loaderCalls m + 1,
                       calls := calls m @ [AwaitLoader]\<rparr>)
      | LoaderSettles k outcome \<Rightarrow>
          if k < length (calls m) \<and> calls m ! k = AwaitLoader then
            (case outcome of
               Inr rawMapData \<Rightarrow>
                 let md = transformMapData ct rawMapData
                 in Some (m\<lparr>mapData := Some md,
                            isLoading := False,
                            calls := (calls m)[k := Done (Fulfilled (Some md))]\<rparr>)
             | Inl e \<Rightarrow>
                 Some (m\<lparr>isLoading := False,
                         calls := (calls m)[k := Done (RejectedWith e)]\<rparr>))
          else None
      | TimerFires k \<Rightarrow>
          if k < length (calls m) \<and> calls m ! k = AwaitTimer then
            (if isLoading m then Some m
             else Some (m\<lparr>calls := (calls m)[k := Done (Fulfilled (mapData m))]\<rparr>))
          else None)"





definition failed :: "MapData option \<Rightarrow> error \<Rightarrow> Manager \<Rightarrow> bool" where
  "failed previous e m \<longleftrightarrow>
     mapData m = previous \<and> \<not> isLoading m \<and> loaderCalls m = 1
     \<and> (calls m = [Done (RejectedWith e), AwaitTimer]
        \<or> calls m = [Done (RejectedWith e), Done (Fulfilled previous)])"

section \<open>TerrainSystem: configuration and state\<close>

record LodConfig =
  levels :: nat
  distances :: "real list"
  lod_segments :: "nat list"

record TerrainConfig =
  segments :: nat
  worldSize :: real
  heightScale :: real
  lod :: LodConfig

text \<open>The configuration that the constructor of \<open>TerrainSystem\<close> installs.\<close>

definition config :: TerrainConfig where
  "config =
     \<lparr>segments = 64, worldSize = 1000, heightScale = 100,
      lod = \<lparr>levels = 2, distances = [1000, 2000], lod_segments = [64, 32]\<rparr>\<rparr>"

text \<open>
  A LOD mesh, as far as the terrain system reads and writes it: the \<open>visible\<close> flag and
  the \<open>userData\<close> entries. The geometry of a mesh is treated separately below.
\<close>

record Mesh =
  visible :: bool
  lodLevel :: nat
  maxDistance :: real

record TerrainStats =
  triangles :: real
  vertices :: real
  lodSwitches :: nat
  lastLODSwitch :: real

text \<open>
  \<open>terrainMesh\<close> refers to one of the objects held in \<open>lodMeshes\<close>; the reference is
  modelled as the position of that object in the list (\<open>None\<close> is \<open>null\<close>).
\<close>

record TerrainSystem =
  ts_config :: TerrainConfig
  terrainMesh :: "nat option"
  lodMeshes :: "Mesh list"
  currentLOD :: int
  heightmapData :: "real list option"
  stats :: TerrainStats

text \<open>\<open>this.lodMeshes[i]\<close> for a whole number \<open>i\<close>: \<open>undefined\<close> out of range.\<close>

definition mesh_at :: "Mesh list \<Rightarrow> int \<Rightarrow> Mesh option" where
  "mesh_at ms i = (if 0 \<le> i \<and> nat i < length ms then Some (ms ! nat i) else None)"

text \<open>
  \<open>switchLOD(newLOD)\<close> for a whole number \<open>newLOD\<close>; \<open>now\<close> is the value of
  \<open>Date.now()\<close> at the call.
\<close>

definition switchLOD :: "int \<Rightarrow> real \<Rightarrow> TerrainSystem \<Rightarrow> TerrainSystem" where
  "switchLOD newLOD now ts =
     (if newLOD < 0 \<or> newLOD \<ge> int (length (lodMeshes ts)) then ts
      else
        let hidden =
              (case mesh_at (lodMeshes ts) (currentLOD ts) of
                 None \<Rightarrow> lodMeshes ts
               | Some m \<Rightarrow> (lodMeshes ts)[nat (currentLOD ts) := m\<lparr>visible := False\<rparr>]);
            shown = hidden[nat newLOD := (hidden ! nat newLOD)\<lparr>visible := True\<rparr>]
        in ts\<lparr>lodMeshes := shown,
              currentLOD := newLOD,
              terrainMesh := Some (nat newLOD),
              stats := (stats ts)\<lparr>lodSwitches := lodSwitches (stats ts) + 1,
                                  lastLODSwitch := now\<rparr>\<rparr>)"

section \<open>TerrainSystem: heightmap sampling\<close>

text \<open>
  \<open>sampleHeightmap(u, v, size)\<close> reads \<open>this.heightmapData\<close>, which its callers have
  checked to be present; the raster is the first argument here, and the parameter
  \<open>size\<close> of the source is written \<open>sz\<close>.
\<close>

definition sampleHeightmap :: "real list \<Rightarrow> real \<Rightarrow> real \<Rightarrow> real \<Rightarrow> real" where
  "sampleHeightmap hm u v sz =
     (let u = max 0 (min 1 u);
          v = max 0 (min 1 v);
          x = u * (sz - 1);
          y = v * (sz - 1);
          x0 = of_int \<lfloor>x\<rfloor>;
          y0 = of_int \<lfloor>y\<rfloor>;
          x1 = min (x0 + 1) (sz - 1);
          y1 = min (y0 + 1) (sz - 1);
          fx = x - x0;
          fy = y - y0;
          h00 = or0 (js_get hm (y0 * sz + x0));
          h10 = or0 (js_get hm (y0 * sz + x1));
          h01 = or0 (js_get hm (y1 * sz + x0));
          h11 = or0 (js_get hm (y1 * sz + x1));
          h0 = h00 * (1 - fx) + h10 * fx;
          h1 = h01 * (1 - fx) + h11 * fx
      in h0 * (1 - fy) + h1 * fy)"

text \<open>
  The conversion of a world coordinate to a heightmap coordinate, as \<open>applyElevationData\<close>
  and \<open>getHeightAt\<close> both write it: \<open>(x + worldSize / 2) / worldSize\<close>.
\<close>

definition heightmapCoord :: "TerrainConfig \<Rightarrow> real \<Rightarrow> real" where
  "heightmapCoord cfg x = (x + worldSize cfg / 2) / worldSize cfg"

definition getHeightAt :: "TerrainSystem \<Rightarrow> real \<Rightarrow> real \<Rightarrow> real" where
  "getHeightAt ts x z =
     (case heightmapData ts of
        None \<Rightarrow> 0
      | Some hm \<Rightarrow>
          let u = heightmapCoord (ts_config ts) x;
              v = heightmapCoord (ts_config ts) z;
              heightmapSize = sqrt (real (length hm))
          in sampleHeightmap hm u v heightmapSize * heightScale (ts_config ts))"

text \<open>The raster of the sampling test of the repository, four rows of four samples.\<close>

definition testRaster :: "real list" where
  "testRaster = [0, 10, 20, 30,  5, 15, 25, 35,  10, 20, 30, 40,  15, 25, 35, 45]"

section \<open>TerrainSystem: applying elevation data to a geometry\<close>

text \<open>
  The position attribute of a geometry is a sequence of vertices that is read with
  \<open>getX\<close>, \<open>getY\<close>, \<open>getZ\<close> and written with \<open>setY\<close>. The geometry comes from
  the rendering library; \<open>applyElevationData\<close> is modelled for every such sequence. Its
  second parameter \<open>segments\<close> is not used by the source and is left out.
\<close>

record Vertex =
  vx :: real
  vy :: real
  vz :: real

text \<open>The height written when no heightmap is available (first loop of the source).\<close>

definition proceduralTerrainHeight :: "real \<Rightarrow> real \<Rightarrow> real" where
  "proceduralTerrainHeight x z =
     (let distanceFromCenter = sqrt (x * x + z * z);
          mountainHeight = max 0 (150 - distanceFromCenter * 0.3);
          height = sin (x * 0.01) * cos (z * 0.01) * 50 +
                   sin (x * 0.005) * cos (z * 0.005) * 30 +
                   sin (x * 0.02) * cos (z * 0.02) * 20 +
                   mountainHeight
      in max height 0)"

text \<open>The amount added to a vertex when the terrain is judged too flat (last loop).\<close>

definition flatTerrainVariation :: "real \<Rightarrow> real \<Rightarrow> real" where
  "flatTerrainVariation x z =
     (let distanceFromCenter = sqrt (x * x + z * z);
          mountainHeight = max 0 (200 - distanceFromCenter * 0.5);
          proceduralHeight = sin (x * 0.01) * cos (z * 0.01) * 50 +
                             sin (x * 0.005) * cos (z * 0.005) * 30 +
                             sin (x * 0.02) * cos (z * 0.02) * 15
      in proceduralHeight + mountainHeight)"

text \<open>
  \<open>appliedMinHeight\<close> and \<open>appliedMaxHeight\<close> start at \<open>Infinity\<close> and \<open>-Infinity\<close>;
  the pair below holds \<open>None\<close> for these initial values. With no vertex at all the
  difference \<open>-Infinity - Infinity\<close> is below 50.
\<close>

type_synonym applied_range = "real option \<times> real option"

definition trackApplied :: "applied_range \<Rightarrow> real \<Rightarrow> applied_range" where
  "trackApplied r scaledHeight =
     (Some (case fst r of None \<Rightarrow> scaledHeight | Some m \<Rightarrow> min m scaledHeight),
      Some (case snd r of None \<Rightarrow> scaledHeight | Some m \<Rightarrow> max m scaledHeight))"

definition tooFlat :: "applied_range \<Rightarrow> bool" where
  "tooFlat r =
     (case r of
        (Some appliedMinHeight, Some appliedMaxHeight) \<Rightarrow> appliedMaxHeight - appliedMinHeight < 50
      | _ \<Rightarrow> True)"

text \<open>The heights of the main loop, before any flatness correction.\<close>

definition applySampledHeights :: "TerrainConfig \<Rightarrow> real list \<Rightarrow> Vertex list \<Rightarrow> Vertex list" where
  "applySampledHeights cfg hm positions =
     (let heightmapSize = sqrt (real (length hm))
      in map (\<lambda>p.
            let x = vx p;
                z = vz p;
                u = heightmapCoord cfg x;
                v = heightmapCoord cfg z;
                height = sampleHeightmap hm u v heightmapSize;
                scaledHeight = height * heightScale cfg
            in p\<lparr>vy := scaledHeight\<rparr>) positions)"

definition appliedRange :: "Vertex list \<Rightarrow> applied_range" where
  "appliedRange applied = foldl trackApplied (None, None) (map vy applied)"

definition applyElevationData :: "TerrainSystem \<Rightarrow> Vertex list \<Rightarrow> Vertex list" where
  "applyElevationData ts positions =
     (let procedural = map (\<lambda>p. p\<lparr>vy := proceduralTerrainHeight (vx p) (vz p)\<rparr>) positions
      in case heightmapData ts of
           None \<Rightarrow> procedural
         | Some hm \<Rightarrow>
             if length hm = 0 then procedural
             else
               let applied = applySampledHeights (ts_config ts) hm positions
               in if tooFlat (appliedRange applied)
                  then map (\<lambda>p. p\<lparr>vy := vy p + flatTerrainVariation (vx p) (vz p)\<rparr>) applied
                  else applied)"

text \<open>A terrain system as the constructor leaves it, with a heightmap stored.\<close>

definition terrainWith :: "real list option \<Rightarrow> TerrainSystem" where
  "terrainWith hm =
     \<lparr>ts_config = config, terrainMesh = None, lodMeshes = [], currentLOD = 0,
      heightmapData = hm,
      stats = \<lparr>triangles = 0, vertices = 0, lodSwitches = 0, lastLODSwitch = 0\<rparr>\<rparr>"

text \<open>
  The four vertices of the geometry in the repository's test of \<open>applyElevationData\<close>.
\<close>

definition testGeometry :: "Vertex list" where
  "testGeometry =
     [\<lparr>vx = - 1000, vy = 0, vz = - 1000\<rparr>, \<lparr>vx = 1000, vy = 0, vz = - 1000\<rparr>,
      \<lparr>vx = - 1000, vy = 0, vz = 1000\<rparr>, \<lparr>vx = 1000, vy = 0, vz = 1000\<rparr>]"

text \<open>
  A terrain system after \<open>generateTerrainLOD\<close> with the two levels of the configuration:
  the mesh of level 0 is visible and is the primary terrain mesh.
\<close>

definition twoLevelTerrain :: TerrainSystem where
  "twoLevelTerrain =
     (terrainWith None)
       \<lparr>terrainMesh := Some 0,
        lodMeshes := [\<lparr>visible = True, lodLevel = 0, maxDistance = 1000\<rparr>,
                      \<lparr>visible = False, lodLevel = 1, maxDistance = 2000\<rparr>]\<rparr>"

section \<open>Round trip of the coordinate transformation\<close>

lemma roundTrip_exact:
  assumes "gameWorldSize ct \<noteq> 0"
    and "east (realWorldBounds ct) \<noteq> west (realWorldBounds ct)"
    and "north (realWorldBounds ct) \<noteq> south (realWorldBounds ct)"
  shows "roundTrip ct lat lon = \<lparr>real_lat = lat, real_lon = lon\<rparr>"
proof -
  let ?b = "realWorldBounds ct"
  let ?w = "gameWorldSize ct"
  have ew: "east ?b - west ?b \<noteq> 0" and ns: "north ?b - south ?b \<noteq> 0"
    using assms by simp_all
  have lon: "west ?b + ((((lon - west ?b) / (east ?b - west ?b) - 0.5) * ?w) / ?w + 0.5)
      * (east ?b - west ?b) = lon"
    using assms(1) ew by (simp add: field_simps)
  have lat: "south ?b + ((((lat - south ?b) / (north ?b - south ?b) - 0.5) * ?w) / ?w + 0.5)
      * (north ?b - south ?b) = lat"
    using assms(1) ns by (simp add: field_simps)
  show ?thesis
    unfolding roundTrip_def realWorldToGameWorld_def gameWorldToRealWorld_def Let_def
    using lon lat by simp
qed

text \<open>
  C1. For every \<open>(lat, lon)\<close> inside the Viimsi Parish bounding box, transforming to the
  game world with \<open>realWorldToGameWorld\<close> and back with \<open>gameWorldToRealWorld\<close> gives
  a latitude and a longitude that each differ from the original by less than 0.001 degrees.
\<close>

theorem roundTrip_within_tolerance:
  assumes "isInViimsiParish lat lon"
  shows "\<bar>real_lat (roundTrip coordinateTransform lat lon) - lat\<bar> < 0.001
       \<and> \<bar>real_lon (roundTrip coordinateTransform lat lon) - lon\<bar> < 0.001"
proof -
  have "roundTrip coordinateTransform lat lon = \<lparr>real_lat = lat, real_lon = lon\<rparr>"
    by (rule roundTrip_exact) (simp_all add: coordinateTransform_def viimsiParishBounds_def)
  then show ?thesis by simp
qed

theorem roundTrip_within_tolerance_witness:
  "isInViimsiParish (594833 / 10000) (247667 / 10000)
   \<and> \<bar>real_lat (roundTrip coordinateTransform (594833 / 10000) (247667 / 10000)) - 594833 / 10000\<bar> < 0.001
   \<and> \<bar>real_lon (roundTrip coordinateTransform (594833 / 10000) (247667 / 10000)) - 247667 / 10000\<bar> < 0.001"
proof -
  have inside: "isInViimsiParish (594833 / 10000) (247667 / 10000)"
    by (simp add: isInViimsiParish_def viimsiParishBounds_def)
  show ?thesis
    using inside roundTrip_within_tolerance [OF inside] by simp
qed

section \<open>Bilinear sampling of the heightmap\<close>

lemma js_get_nat: "k < length a \<Longrightarrow> js_get a (real k) = Some (a ! k)"
  by (simp add: js_get_def)

lemma js_get_cell:
  "j * n + i < length a \<Longrightarrow> js_get a (real j * real n + real i) = Some (a ! (j * n + i))"
  using js_get_nat [of "j * n + i" a] by simp

lemma cell_index_bound:
  fixes i j n :: nat
  assumes "i < n" and "j < n"
  shows "j * n + i < n * n"
proof -
  have "j * n + i < Suc j * n" using assms(1) by simp
  also have "\<dots> \<le> n * n" using assms(2) by (intro mult_le_mono1) simp
  finally show ?thesis .
qed

text \<open>
  Inside the cell whose upper left sample is column \<open>i\<close>, row \<open>j\<close>, at the offsets \<open>s\<close>
  and \<open>t\<close>, the result is the linear blend along each axis of the four samples around.
\<close>

lemma sampleHeightmap_cell:
  assumes n: "2 \<le> n" and len: "length hm = n * n"
    and i: "i + 1 < n" and j: "j + 1 < n"
    and s: "0 \<le> s" "s < 1" and t: "0 \<le> t" "t < 1"
  shows "sampleHeightmap hm ((real i + s) / real (n - 1)) ((real j + t) / real (n - 1)) (real n)
       = ((hm ! (j * n + i)) * (1 - s) + (hm ! (j * n + (i + 1))) * s) * (1 - t)
         + ((hm ! ((j + 1) * n + i)) * (1 - s) + (hm ! ((j + 1) * n + (i + 1))) * s) * t"
proof -
  have n1: "real (n - 1) = real n - 1" "real n - 1 > 0"
    using n by (auto simp: of_nat_diff)
  have ub: "(real i + s) / (real n - 1) \<le> 1" "0 \<le> (real i + s) / (real n - 1)"
    using i s n1 by (auto simp: field_simps)
  have vb: "(real j + t) / (real n - 1) \<le> 1" "0 \<le> (real j + t) / (real n - 1)"
    using j t n1 by (auto simp: field_simps)
  have x: "max 0 (min 1 ((real i + s) / (real n - 1))) * (real n - 1) = real i + s"
    using ub n1 by (simp add: min_def max_def)
  have y: "max 0 (min 1 ((real j + t) / (real n - 1))) * (real n - 1) = real j + t"
    using vb n1 by (simp add: min_def max_def)
  have fx: "\<lfloor>real i + s\<rfloor> = int i" using s by linarith
  have fy: "\<lfloor>real j + t\<rfloor> = int j" using t by linarith
  have x1: "min (real i + 1) (real n - 1) = real (i + 1)" using i by (simp add: min_def)
  have y1: "min (real j + 1) (real n - 1) = real (j + 1)" using j by (simp add: min_def)
  have idx: "j * n + i < length hm" "j * n + (i + 1) < length hm"
    "(j + 1) * n + i < length hm" "(j + 1) * n + (i + 1) < length hm"
    using i j len by (simp_all only: cell_index_bound)
  have g: "real j * real n + real i = real (j * n + i)"
    "real j * real n + real (i + 1) = real (j * n + (i + 1))"
    "real (j + 1) * real n + real i = real ((j + 1) * n + i)"
    "real (j + 1) * real n + real (i + 1) = real ((j + 1) * n + (i + 1))"
    by (simp_all add: algebra_simps)
  show ?thesis
    unfolding sampleHeightmap_def Let_def n1 x y fx fy of_int_of_nat_eq x1 y1 g
    using idx by (simp only: js_get_nat or0_def option.case) (simp add: algebra_simps)
qed

text \<open>At a grid corner the result is the sample stored there.\<close>

lemma sampleHeightmap_corner:
  assumes n: "2 \<le> n" and len: "length hm = n * n" and i: "i < n" and j: "j < n"
  shows "sampleHeightmap hm (real i / real (n - 1)) (real j / real (n - 1)) (real n)
       = hm ! (j * n + i)"
proof -
  have n1: "real (n - 1) = real n - 1" "real n - 1 > 0"
    using n by (auto simp: of_nat_diff)
  have ub: "real i / (real n - 1) \<le> 1" "0 \<le> real i / (real n - 1)"
    using i n1 by (auto simp: field_simps)
  have vb: "real j / (real n - 1) \<le> 1" "0 \<le> real j / (real n - 1)"
    using j n1 by (auto simp: field_simps)
  have x: "max 0 (min 1 (real i / (real n - 1))) * (real n - 1) = real i"
    using ub n1 by (simp add: min_def max_def)
  have y: "max 0 (min 1 (real j / (real n - 1))) * (real n - 1) = real j"
    using vb n1 by (simp add: min_def max_def)
  have idx: "j * n + i < length hm" using i j len by (simp only: cell_index_bound)
  show ?thesis
    unfolding sampleHeightmap_def Let_def n1 x y floor_of_nat of_int_of_nat_eq
    using idx by (simp add: js_get_cell or0_def)
qed

text \<open>
  C2. \<open>sampleHeightmap\<close> is exact bilinear interpolation over the row-major raster: over
  the sixteen samples of the test raster with size 4 it gives 22.5 at \<open>(0.5, 0.5)\<close>, 0 at
  \<open>(0, 0)\<close> and 45 at \<open>(1, 1)\<close>; at every grid corner of a raster of side at least 2 it
  gives the sample of that corner unchanged; and inside every cell it gives the linear
  blend along each axis of the four samples around the point.
\<close>

theorem sampleHeightmap_bilinear:
  "sampleHeightmap testRaster 0.5 0.5 4 = 22.5
   \<and> sampleHeightmap testRaster 0 0 4 = 0
   \<and> sampleHeightmap testRaster 1 1 4 = 45
   \<and> (\<forall>hm n i j. 2 \<le> n \<and> length hm = n * n \<and> i < n \<and> j < n \<longrightarrow>
         sampleHeightmap hm (real i / real (n - 1)) (real j / real (n - 1)) (real n)
           = hm ! (j * n + i))
   \<and> (\<forall>hm n i j s t. 2 \<le> n \<and> length hm = n * n \<and> i + 1 < n \<and> j + 1 < n
         \<and> 0 \<le> s \<and> s < 1 \<and> 0 \<le> t \<and> t < 1 \<longrightarrow>
         sampleHeightmap hm ((real i + s) / real (n - 1)) ((real j + t) / real (n - 1)) (real n)
           = ((hm ! (j * n + i)) * (1 - s) + (hm ! (j * n + (i + 1))) * s) * (1 - t)
             + ((hm ! ((j + 1) * n + i)) * (1 - s) + (hm ! ((j + 1) * n + (i + 1))) * s) * t)"
proof (intro conjI allI impI)
  show "sampleHeightmap testRaster 0.5 0.5 4 = 22.5"
    by (simp add: sampleHeightmap_def testRaster_def js_get_def or0_def Let_def)
  show "sampleHeightmap testRaster 0 0 4 = 0"
    by (simp add: sampleHeightmap_def testRaster_def js_get_def or0_def Let_def)
  show "sampleHeightmap testRaster 1 1 4 = 45"
    by (simp add: sampleHeightmap_def testRaster_def js_get_def or0_def Let_def)
next
  fix hm :: "real list" and n i j :: nat
  assume "2 \<le> n \<and> length hm = n * n \<and> i < n \<and> j < n"
  then have "2 \<le> n" "length hm = n * n" "i < n" "j < n" by simp_all
  then show "sampleHeightmap hm (real i / real (n - 1)) (real j / real (n - 1)) (real n)
      = hm ! (j * n + i)"
    by (rule sampleHeightmap_corner)
next
  fix hm :: "real list" and n i j :: nat and s t :: real
  assume "2 \<le> n \<and> length hm = n * n \<and> i + 1 < n \<and> j + 1 < n
    \<and> 0 \<le> s \<and> s < 1 \<and> 0 \<le> t \<and> t < 1"
  then show "sampleHeightmap hm ((real i + s) / real (n - 1)) ((real j + t) / real (n - 1)) (real n)
      = ((hm ! (j * n + i)) * (1 - s) + (hm ! (j * n + (i + 1))) * s) * (1 - t)
        + ((hm ! ((j + 1) * n + i)) * (1 - s) + (hm ! ((j + 1) * n + (i + 1))) * s) * t"
    by (intro sampleHeightmap_cell) simp_all
qed

text \<open>
  The corner of column 3, row 2 of the test raster holds 40, and the point a quarter of
  the way into the cell of column 1, row 1 blends 15, 25, 20 and 30 to 18.75.
\<close>

theorem sampleHeightmap_bilinear_witness:
  "(2::nat) \<le> 4 \<and> length testRaster = 4 * 4 \<and> (3::nat) < 4 \<and> (2::nat) < 4
   \<and> sampleHeightmap testRaster (real (3::nat) / real (4 - 1 :: nat)) (real (2::nat) / real (4 - 1 :: nat)) (real (4::nat)) = 40
   \<and> (1::nat) + 1 < 4 \<and> (0::real) \<le> 1 / 4 \<and> (1 / 4 :: real) < 1
   \<and> sampleHeightmap testRaster ((real (1::nat) + 1 / 4) / real (4 - 1 :: nat))
        ((real (1::nat) + 1 / 4) / real (4 - 1 :: nat)) (real (4::nat)) = 18.75"
proof -
  have len: "length testRaster = 4 * 4" by (simp add: testRaster_def)
  have corners: "\<forall>hm n i j. 2 \<le> n \<and> length hm = n * n \<and> i < n \<and> j < n \<longrightarrow>
      sampleHeightmap hm (real i / real (n - 1)) (real j / real (n - 1)) (real n) = hm ! (j * n + i)"
    using sampleHeightmap_bilinear by (elim conjE)
  have cells: "\<forall>hm n i j s t. 2 \<le> n \<and> length hm = n * n \<and> i + 1 < n \<and> j + 1 < n
         \<and> 0 \<le> s \<and> s < 1 \<and> 0 \<le> t \<and> t < 1 \<longrightarrow>
         sampleHeightmap hm ((real i + s) / real (n - 1)) ((real j + t) / real (n - 1)) (real n)
           = ((hm ! (j * n + i)) * (1 - s) + (hm ! (j * n + (i + 1))) * s) * (1 - t)
             + ((hm ! ((j + 1) * n + i)) * (1 - s) + (hm ! ((j + 1) * n + (i + 1))) * s) * t"
    using sampleHeightmap_bilinear by (elim conjE)
  have corner: "sampleHeightmap testRaster (real (3::nat) / real (4 - 1 :: nat))
      (real (2::nat) / real (4 - 1 :: nat)) (real (4::nat)) = testRaster ! (2 * 4 + 3)"
    using corners [rule_format, of 4 testRaster 3 2] len by simp
  have cell: "sampleHeightmap testRaster ((real (1::nat) + 1 / 4) / real (4 - 1 :: nat))
      ((real (1::nat) + 1 / 4) / real (4 - 1 :: nat)) (real (4::nat))
      = ((testRaster ! (1 * 4 + 1)) * (1 - 1 / 4) + (testRaster ! (1 * 4 + (1 + 1))) * (1 / 4)) * (1 - 1 / 4)
        + ((testRaster ! ((1 + 1) * 4 + 1)) * (1 - 1 / 4) + (testRaster ! ((1 + 1) * 4 + (1 + 1))) * (1 / 4)) * (1 / 4)"
    using cells [rule_format, of 4 testRaster 1 1 "1 / 4" "1 / 4"] len by simp
  show ?thesis
    using corner cell len by (simp add: testRaster_def)
qed

section \<open>Switching the level of detail\<close>

text \<open>
  C10. For every index below 0 or not below the number of LOD meshes, \<open>switchLOD\<close>
  changes nothing: \<open>currentLOD\<close>, \<open>terrainMesh\<close>, the \<open>visible\<close> flag of every LOD
  mesh and the counter \<open>stats.lodSwitches\<close> are as before, and so is the rest of the state.
\<close>

theorem switchLOD_out_of_range:
  assumes "newLOD < 0 \<or> newLOD \<ge> int (length (lodMeshes ts))"
  shows "currentLOD (switchLOD newLOD now ts) = currentLOD ts
       \<and> terrainMesh (switchLOD newLOD now ts) = terrainMesh ts
       \<and> map visible (lodMeshes (switchLOD newLOD now ts)) = map visible (lodMeshes ts)
       \<and> lodSwitches (stats (switchLOD newLOD now ts)) = lodSwitches (stats ts)
       \<and> switchLOD newLOD now ts = ts"
proof -
  from assms have "switchLOD newLOD now ts = ts"
    unfolding switchLOD_def by (simp only: if_True)
  then show ?thesis by simp
qed

theorem switchLOD_out_of_range_witness:
  "((2::int) < 0 \<or> 2 \<ge> int (length (lodMeshes (twoLevelTerrain))))
   \<and> currentLOD (switchLOD 2 7 twoLevelTerrain) = 0
   \<and> terrainMesh (switchLOD 2 7 twoLevelTerrain) = Some 0
   \<and> map visible (lodMeshes (switchLOD 2 7 twoLevelTerrain)) = [True, False]
   \<and> lodSwitches (stats (switchLOD 2 7 twoLevelTerrain)) = 0
   \<and> ((- 1 :: int) < 0 \<or> - 1 \<ge> int (length (lodMeshes (twoLevelTerrain))))
   \<and> switchLOD (- 1) 7 twoLevelTerrain = twoLevelTerrain"
proof -
  have high: "(2::int) < 0 \<or> 2 \<ge> int (length (lodMeshes twoLevelTerrain))"
    by (simp add: twoLevelTerrain_def)
  have low: "(- 1 :: int) < 0 \<or> - 1 \<ge> int (length (lodMeshes twoLevelTerrain))"
    by simp
  show ?thesis
    using high low switchLOD_out_of_range [OF high, of 7] switchLOD_out_of_range [OF low, of 7]
    by (simp add: twoLevelTerrain_def terrainWith_def)
qed

text \<open>An index within range does switch: the theorem above is not about every index.\<close>

lemma switchLOD_in_range_example:
  "currentLOD (switchLOD 1 7 twoLevelTerrain) = 1
   \<and> terrainMesh (switchLOD 1 7 twoLevelTerrain) = Some 1
   \<and> map visible (lodMeshes (switchLOD 1 7 twoLevelTerrain)) = [False, True]
   \<and> lodSwitches (stats (switchLOD 1 7 twoLevelTerrain)) = 1"
  by (simp add: switchLOD_def twoLevelTerrain_def terrainWith_def mesh_at_def Let_def)

section \<open>The two road width tables\<close>

lemma estimateRoadWidth_default:
  assumes "highway \<notin> {''primary'', ''secondary'', ''tertiary'', ''residential'', ''service'',
                        ''footway'', ''cycleway'', ''path''}"
    and "highway \<notin> set objectPrototypeMembers"
  shows "estimateRoadWidth highway = Number 4"
  using assms by (simp add: estimateRoadWidth_def js_prop_def or_number_def)

lemma getRoadWidth_default:
  assumes "roadType \<notin> {''motorway'', ''trunk'', ''primary'', ''secondary'', ''tertiary'',
                         ''residential'', ''service'', ''footway'', ''path''}"
    and "roadType \<notin> set objectPrototypeMembers"
  shows "getRoadWidth roadType = Number 4"
  using assms by (simp add: getRoadWidth_def js_prop_def or_number_def)

lemma roadWidth_inherited:
  assumes "c \<in> set objectPrototypeMembers"
  shows "estimateRoadWidth c = Inherited c \<and> getRoadWidth c = Inherited c"
proof -
  from assms have "c = ''constructor'' \<or> c = ''__proto__'' \<or> c = ''hasOwnProperty''
      \<or> c = ''isPrototypeOf'' \<or> c = ''propertyIsEnumerable'' \<or> c = ''toLocaleString''
      \<or> c = ''toString'' \<or> c = ''valueOf'' \<or> c = ''__defineGetter__''
      \<or> c = ''__defineSetter__'' \<or> c = ''__lookupGetter__'' \<or> c = ''__lookupSetter__''"
    by (simp add: objectPrototypeMembers_def)
  then show ?thesis
    by (elim disjE)
      (simp_all add: estimateRoadWidth_def getRoadWidth_def js_prop_def or_number_def
        objectPrototypeMembers_def)
qed

text \<open>
  The claim C4 as stated fails: for \<open>motorway\<close> the table of the loader has no entry and
  gives the default 4, the table of the manager gives 12.
\<close>

theorem roadWidth_motorway_differs:
  "estimateRoadWidth ''motorway'' = Number 4
   \<and> getRoadWidth ''motorway'' = Number 12
   \<and> estimateRoadWidth ''motorway'' \<noteq> getRoadWidth ''motorway''"
  by (simp add: estimateRoadWidth_def getRoadWidth_def js_prop_def or_number_def
      objectPrototypeMembers_def)

text \<open>
  C4, amended. For every road category other than \<open>motorway\<close>, \<open>trunk\<close>, \<open>footway\<close>,
  \<open>cycleway\<close> and \<open>path\<close>, \<open>estimateRoadWidth\<close> and \<open>getRoadWidth\<close> return the same
  value; both return 4 for \<open>residential\<close>, and both return the default 4 for every
  category that is in neither table and is not the name of an inherited object member,
  such as \<open>totally-unknown\<close>. \<open>getRoadWidth\<close> returns 12 for \<open>motorway\<close>.
\<close>

theorem roadWidth_tables_agree:
  "(\<forall>c. c \<notin> {''motorway'', ''trunk'', ''footway'', ''cycleway'', ''path''} \<longrightarrow>
        estimateRoadWidth c = getRoadWidth c)
   \<and> getRoadWidth ''motorway'' = Number 12
   \<and> estimateRoadWidth ''residential'' = Number 4
   \<and> getRoadWidth ''residential'' = Number 4
   \<and> (\<forall>c. c \<notin> {''motorway'', ''trunk'', ''primary'', ''secondary'', ''tertiary'',
               ''residential'', ''service'', ''footway'', ''cycleway'', ''path''}
          \<and> c \<notin> set objectPrototypeMembers \<longrightarrow>
        estimateRoadWidth c = Number 4 \<and> getRoadWidth c = Number 4)
   \<and> estimateRoadWidth ''totally-unknown'' = Number 4
   \<and> getRoadWidth ''totally-unknown'' = Number 4"
proof (intro conjI allI impI)
  fix c :: string
  assume "c \<notin> {''motorway'', ''trunk'', ''footway'', ''cycleway'', ''path''}"
  then show "estimateRoadWidth c = getRoadWidth c"
    by (simp add: estimateRoadWidth_def getRoadWidth_def js_prop_def or_number_def)
next
  show "getRoadWidth ''motorway'' = Number 12"
    by (simp add: getRoadWidth_def js_prop_def or_number_def)
  show "estimateRoadWidth ''residential'' = Number 4"
    by (simp add: estimateRoadWidth_def js_prop_def or_number_def)
  show "getRoadWidth ''residential'' = Number 4"
    by (simp add: getRoadWidth_def js_prop_def or_number_def)
  show "estimateRoadWidth ''totally-unknown'' = Number 4"
    by (simp add: estimateRoadWidth_def js_prop_def or_number_def objectPrototypeMembers_def)
  show "getRoadWidth ''totally-unknown'' = Number 4"
    by (simp add: getRoadWidth_def js_prop_def or_number_def objectPrototypeMembers_def)
next
  fix c :: string
  assume c: "c \<notin> {''motorway'', ''trunk'', ''primary'', ''secondary'', ''tertiary'',
               ''residential'', ''service'', ''footway'', ''cycleway'', ''path''}
          \<and> c \<notin> set objectPrototypeMembers"
  then show "estimateRoadWidth c = Number 4"
    by (intro estimateRoadWidth_default) simp_all
  from c show "getRoadWidth c = Number 4"
    by (intro getRoadWidth_default) simp_all
qed

theorem roadWidth_tables_agree_witness:
  "''primary'' \<notin> {''motorway'', ''trunk'', ''footway'', ''cycleway'', ''path''}
   \<and> estimateRoadWidth ''primary'' = Number 8
   \<and> getRoadWidth ''primary'' = Number 8
   \<and> ''unclassified'' \<notin> {''motorway'', ''trunk'', ''primary'', ''secondary'', ''tertiary'',
               ''residential'', ''service'', ''footway'', ''cycleway'', ''path''}
   \<and> ''unclassified'' \<notin> set objectPrototypeMembers
   \<and> estimateRoadWidth ''unclassified'' = Number 4
   \<and> getRoadWidth ''unclassified'' = Number 4"
proof -
  have same: "\<forall>c. c \<notin> {''motorway'', ''trunk'', ''footway'', ''cycleway'', ''path''} \<longrightarrow>
        estimateRoadWidth c = getRoadWidth c"
    using roadWidth_tables_agree by (elim conjE)
  have dflt: "\<forall>c. c \<notin> {''motorway'', ''trunk'', ''primary'', ''secondary'', ''tertiary'',
               ''residential'', ''service'', ''footway'', ''cycleway'', ''path''}
          \<and> c \<notin> set objectPrototypeMembers \<longrightarrow>
        estimateRoadWidth c = Number 4 \<and> getRoadWidth c = Number 4"
    using roadWidth_tables_agree by (elim conjE)
  have primary: "getRoadWidth ''primary'' = Number 8"
    by (simp add: getRoadWidth_def js_prop_def or_number_def)
  show ?thesis
    using same [rule_format, of "''primary''"] dflt [rule_format, of "''unclassified''"] primary
    by (simp add: objectPrototypeMembers_def)
qed

section \<open>Loading the four datasets\<close>

lemma settledList_settle_array:
  "settledList (settle (map_sum id Some r)) = Inr (case r of Inl _ \<Rightarrow> [] | Inr xs \<Rightarrow> xs)"
  by (cases r) (simp_all add: settledList_def settle_def)

lemma settledList_throws:
  "settledList (settle r) = Inl e \<Longrightarrow> r = Inr None"
  by (cases r; cases "projr r") (auto simp: settledList_def settle_def split: option.splits)

text \<open>
  C7. \<open>loadViimsiData\<close> does not reject because a fetch fails. Whatever the outcome of
  the elevation fetch, and whether each of the building, road and forest fetches fails
  or returns an array, the call resolves with a record that holds \<open>null\<close> for a failed
  elevation fetch and the empty list for a failed building, road or forest fetch, next
  to the values of the fetches that succeeded. The call rejects only when the step that
  assembles and logs the record throws, which takes a fulfilled list fetch without an array.
\<close>

theorem loadViimsiData_absorbs_failures:
  "(\<forall>e b r f now.
      loadViimsiData e (map_sum id Some b) (map_sum id Some r) (map_sum id Some f) now
        = Inr \<lparr>raw_elevation = (case e of Inl _ \<Rightarrow> None | Inr v \<Rightarrow> v),
               raw_buildings = (case b of Inl _ \<Rightarrow> [] | Inr v \<Rightarrow> v),
               raw_roads = (case r of Inl _ \<Rightarrow> [] | Inr v \<Rightarrow> v),
               raw_forests = (case f of Inl _ \<Rightarrow> [] | Inr v \<Rightarrow> v),
               raw_bounds = viimsiParishBounds,
               raw_timestamp = now\<rparr>)
   \<and> (\<forall>e b r f now err.
        loadViimsiData e b r f now = Inl err \<longrightarrow> b = Inr None \<or> r = Inr None \<or> f = Inr None)"
proof (intro conjI allI impI)
  fix e :: "error + real list option" and b :: "error + RawBuilding list"
    and r :: "error + RawRoad list" and f :: "error + RawForest list" and now :: real
  have elev: "(case settle e of Fulfilled v \<Rightarrow> v | RejectedWith _ \<Rightarrow> None)
      = (case e of Inl _ \<Rightarrow> None | Inr v \<Rightarrow> v)"
    by (cases e) (simp_all add: settle_def)
  show "loadViimsiData e (map_sum id Some b) (map_sum id Some r) (map_sum id Some f) now
        = Inr \<lparr>raw_elevation = (case e of Inl _ \<Rightarrow> None | Inr v \<Rightarrow> v),
               raw_buildings = (case b of Inl _ \<Rightarrow> [] | Inr v \<Rightarrow> v),
               raw_roads = (case r of Inl _ \<Rightarrow> [] | Inr v \<Rightarrow> v),
               raw_forests = (case f of Inl _ \<Rightarrow> [] | Inr v \<Rightarrow> v),
               raw_bounds = viimsiParishBounds,
               raw_timestamp = now\<rparr>"
    unfolding loadViimsiData_def Let_def settledList_settle_array elev by simp
next
  fix e :: "error + real list option" and b :: "error + RawBuilding list option"
    and r :: "error + RawRoad list option" and f :: "error + RawForest list option"
    and now :: real and err :: error
  assume rejected: "loadViimsiData e b r f now = Inl err"
  show "b = Inr None \<or> r = Inr None \<or> f = Inr None"
  proof (rule ccontr)
    assume "\<not> (b = Inr None \<or> r = Inr None \<or> f = Inr None)"
    then have "\<forall>x. settledList (settle b) \<noteq> Inl x" "\<forall>x. settledList (settle r) \<noteq> Inl x"
      "\<forall>x. settledList (settle f) \<noteq> Inl x"
      using settledList_throws by blast+
    then obtain bs rs fs where "settledList (settle b) = Inr bs" "settledList (settle r) = Inr rs"
      "settledList (settle f) = Inr fs"
      by (metis sum.exhaust)
    then have "\<exists>md. loadViimsiData e b r f now = Inr md"
      by (simp add: loadViimsiData_def Let_def)
    with rejected show False by simp
  qed
qed

text \<open>
  All four fetches fail: the call resolves with \<open>null\<close> and three empty lists. A building
  fetch that fulfils without an array makes the call reject.
\<close>

theorem loadViimsiData_absorbs_failures_witness:
  "loadViimsiData (Inl (Error ''Network error'')) (Inl (Error ''Network error''))
       (Inl (Error ''Network error'')) (Inl (Error ''Network error'')) 5
     = Inr \<lparr>raw_elevation = None, raw_buildings = [], raw_roads = [], raw_forests = [],
            raw_bounds = viimsiParishBounds, raw_timestamp = 5\<rparr>
   \<and> loadViimsiData (Inr None) (Inr None) (Inr (Some [])) (Inr (Some [])) 5
     = Inl (Error ''Map data loading failed: Cannot read properties of null'')
   \<and> ((Inr None :: error + RawBuilding list option) = Inr None
        \<or> (Inr (Some []) :: error + RawRoad list option) = Inr None
        \<or> (Inr (Some []) :: error + RawForest list option) = Inr None)"
proof -
  have absorbed: "\<forall>e b r f now.
      loadViimsiData e (map_sum id Some b) (map_sum id Some r) (map_sum id Some f) now
        = Inr \<lparr>raw_elevation = (case e of Inl _ \<Rightarrow> None | Inr v \<Rightarrow> v),
               raw_buildings = (case b of Inl _ \<Rightarrow> [] | Inr v \<Rightarrow> v),
               raw_roads = (case r of Inl _ \<Rightarrow> [] | Inr v \<Rightarrow> v),
               raw_forests = (case f of Inl _ \<Rightarrow> [] | Inr v \<Rightarrow> v),
               raw_bounds = viimsiParishBounds,
               raw_timestamp = now\<rparr>"
    using loadViimsiData_absorbs_failures by (elim conjE)
  have only: "\<forall>e b r f now err.
        loadViimsiData e b r f now = Inl err \<longrightarrow> b = Inr None \<or> r = Inr None \<or> f = Inr None"
    using loadViimsiData_absorbs_failures by (elim conjE)
  have thrown: "loadViimsiData (Inr None) (Inr None) (Inr (Some [])) (Inr (Some [])) 5
     = Inl (Error ''Map data loading failed: Cannot read properties of null'')"
    by (simp add: loadViimsiData_def settle_def settledList_def typeError_def message_def)
  show ?thesis
    using absorbed [rule_format, of "Inl (Error ''Network error'')" "Inl (Error ''Network error'')"
        "Inl (Error ''Network error'')" "Inl (Error ''Network error'')" 5]
      only [rule_format, OF thrown] thrown
    by simp
qed

section \<open>Nearby buildings and roads of a location\<close>

lemma sqrt_6400: "sqrt 6400 = 80"
  using real_sqrt_abs [of 80] by simp

lemma transform_far:
  "transformBuilding coordinateTransform (rawBuildingAt name (594707 / 10000) (495333 / 20000))
     = \<lparr>b_raw = rawBuildingAt name (594707 / 10000) (495333 / 20000),
        gamePosition = \<lparr>pos_x = 0, pos_y = 3, pos_z = 80\<rparr>,
        gameHeight = 6,
        realWorldCoords = \<lparr>opt_lat = Some (594707 / 10000), opt_lon = Some (495333 / 20000)\<rparr>\<rparr>"
  by (simp add: transformBuilding_def rawBuildingAt_def truthy_def realWorldToGameWorld_def
      coordinateTransform_def viimsiParishBounds_def Let_def)

lemma transform_near:
  "transformBuilding coordinateTransform (rawBuildingAt name (594667 / 10000) (495333 / 20000))
     = \<lparr>b_raw = rawBuildingAt name (594667 / 10000) (495333 / 20000),
        gamePosition = \<lparr>pos_x = 0, pos_y = 3, pos_z = 0\<rparr>,
        gameHeight = 6,
        realWorldCoords = \<lparr>opt_lat = Some (594667 / 10000), opt_lon = Some (495333 / 20000)\<rparr>\<rparr>"
  by (simp add: transformBuilding_def rawBuildingAt_def truthy_def realWorldToGameWorld_def
      coordinateTransform_def viimsiParishBounds_def Let_def)

lemma rawBuildingAt_name: "rb_name (rawBuildingAt name lat lon) = name"
  by (simp add: rawBuildingAt_def)

lemma six_buildings:
  "buildings (transformMapData coordinateTransform sixBuildingsRaw)
     = map (transformBuilding coordinateTransform) (raw_buildings sixBuildingsRaw)"
  by (simp add: transformMapData_def transformBuildingData_def)

lemma six_positions:
  "map gamePosition (buildings (transformMapData coordinateTransform sixBuildingsRaw))
     = [\<lparr>pos_x = 0, pos_y = 3, pos_z = 80\<rparr>, \<lparr>pos_x = 0, pos_y = 3, pos_z = 80\<rparr>,
        \<lparr>pos_x = 0, pos_y = 3, pos_z = 80\<rparr>, \<lparr>pos_x = 0, pos_y = 3, pos_z = 80\<rparr>,
        \<lparr>pos_x = 0, pos_y = 3, pos_z = 80\<rparr>, \<lparr>pos_x = 0, pos_y = 3, pos_z = 0\<rparr>]"
  unfolding six_buildings by (simp add: sixBuildingsRaw_def transform_far transform_near)

lemma six_in_area:
  "map buildingName
     (getBuildingsInArea (Some (transformMapData coordinateTransform sixBuildingsRaw)) 0 0 100)
     = [''Far 1'', ''Far 2'', ''Far 3'', ''Far 4'', ''Far 5'', ''Near'']"
  unfolding getBuildingsInArea_def option.case six_buildings
  by (simp add: sixBuildingsRaw_def transform_far transform_near sqrt_6400 buildingName_def
      rawBuildingAt_name Let_def)

text \<open>
  C9 states that the buildings and roads of \<open>getLocationInfo\<close> are the nearest ones. The
  code takes the first five buildings (three roads) within the radius in the order of
  the snapshot, without sorting by distance. With the six buildings above and the query
  point in the middle of the world, all six are within radius 100; the five returned are
  the ones at distance 80, and the building at distance 0 is left out.
\<close>

theorem getLocationInfo_first_not_nearest:
  "map buildingName
     (getBuildingsInArea (Some (transformMapData coordinateTransform sixBuildingsRaw)) 0 0 100)
     = [''Far 1'', ''Far 2'', ''Far 3'', ''Far 4'', ''Far 5'', ''Near'']
   \<and> map buildingName
     (nearbyBuildings
        (getLocationInfo coordinateTransform
           (Some (transformMapData coordinateTransform sixBuildingsRaw)) 0 0))
     = [''Far 1'', ''Far 2'', ''Far 3'', ''Far 4'', ''Far 5'']
   \<and> map gamePosition (buildings (transformMapData coordinateTransform sixBuildingsRaw))
     = [\<lparr>pos_x = 0, pos_y = 3, pos_z = 80\<rparr>, \<lparr>pos_x = 0, pos_y = 3, pos_z = 80\<rparr>,
        \<lparr>pos_x = 0, pos_y = 3, pos_z = 80\<rparr>, \<lparr>pos_x = 0, pos_y = 3, pos_z = 80\<rparr>,
        \<lparr>pos_x = 0, pos_y = 3, pos_z = 80\<rparr>, \<lparr>pos_x = 0, pos_y = 3, pos_z = 0\<rparr>]"
proof -
  note area = six_in_area
  have "map buildingName
     (nearbyBuildings
        (getLocationInfo coordinateTransform
           (Some (transformMapData coordinateTransform sixBuildingsRaw)) 0 0))
     = take 5 (map buildingName
        (getBuildingsInArea (Some (transformMapData coordinateTransform sixBuildingsRaw)) 0 0 100))"
    by (simp add: getLocationInfo_def Let_def take_map)
  also have "\<dots> = [''Far 1'', ''Far 2'', ''Far 3'', ''Far 4'', ''Far 5'']"
    unfolding area by simp
  finally show ?thesis
    using area six_positions by simp
qed

section \<open>The height query and the heights of the mesh\<close>

lemma getHeightAt_loaded:
  assumes "heightmapData ts = Some hm"
  shows "getHeightAt ts x z =
    sampleHeightmap hm (heightmapCoord (ts_config ts) x) (heightmapCoord (ts_config ts) z)
      (sqrt (real (length hm))) * heightScale (ts_config ts)"
  using assms by (simp add: getHeightAt_def Let_def)

lemma applySampledHeights_length:
  "length (applySampledHeights cfg hm positions) = length positions"
  by (simp add: applySampledHeights_def Let_def)

lemma applySampledHeights_nth:
  assumes "i < length positions"
  shows "applySampledHeights cfg hm positions ! i =
    (positions ! i)\<lparr>vy := sampleHeightmap hm (heightmapCoord cfg (vx (positions ! i)))
        (heightmapCoord cfg (vz (positions ! i))) (sqrt (real (length hm))) * heightScale cfg\<rparr>"
  using assms by (simp add: applySampledHeights_def Let_def)

lemma applySampledHeights_heights:
  assumes "heightmapData ts = Some hm"
  shows "map vy (applySampledHeights (ts_config ts) hm positions)
    = map (\<lambda>p. getHeightAt ts (vx p) (vz p)) positions"
  using assms by (simp add: applySampledHeights_def Let_def getHeightAt_loaded)

text \<open>The running minimum and maximum bound every height seen.\<close>

lemma foldl_trackApplied_bounds:
  "\<exists>lo hi. foldl trackApplied (Some a, Some b) hs = (Some lo, Some hi)
      \<and> lo \<le> a \<and> b \<le> hi \<and> (\<forall>h \<in> set hs. lo \<le> h \<and> h \<le> hi)"
proof (induction hs arbitrary: a b)
  case Nil
  show ?case by simp
next
  case (Cons h hs)
  obtain lo hi where step: "foldl trackApplied (Some (min a h), Some (max b h)) hs = (Some lo, Some hi)"
    and lo: "lo \<le> min a h" and hi: "max b h \<le> hi" and rest: "\<forall>k \<in> set hs. lo \<le> k \<and> k \<le> hi"
    using Cons.IH [of "min a h" "max b h"] by blast
  have "foldl trackApplied (Some a, Some b) (h # hs) = (Some lo, Some hi)"
    using step by (simp add: trackApplied_def)
  moreover have "lo \<le> a" "lo \<le> h" using lo by simp_all
  moreover have "b \<le> hi" "h \<le> hi" using hi by simp_all
  ultimately show ?case using rest by auto
qed

lemma appliedRange_bounds:
  assumes "applied \<noteq> []"
  shows "\<exists>lo hi. appliedRange applied = (Some lo, Some hi)
      \<and> (\<forall>p \<in> set applied. lo \<le> vy p \<and> vy p \<le> hi)"
proof -
  obtain p ps where ap: "applied = p # ps"
    using assms by (cases applied) simp_all
  obtain lo hi where f: "foldl trackApplied (Some (vy p), Some (vy p)) (map vy ps) = (Some lo, Some hi)"
    and lo: "lo \<le> vy p" and hi: "vy p \<le> hi" and rest: "\<forall>h \<in> set (map vy ps). lo \<le> h \<and> h \<le> hi"
    using foldl_trackApplied_bounds [of "vy p" "vy p" "map vy ps"] by blast
  have "appliedRange applied = (Some lo, Some hi)"
    using f by (simp add: appliedRange_def ap trackApplied_def)
  then show ?thesis
    using lo hi rest ap by auto
qed

lemma not_tooFlat:
  assumes loaded: "heightmapData ts = Some hm"
    and p: "p \<in> set positions" and q: "q \<in> set positions"
    and spread: "getHeightAt ts (vx p) (vz p) - getHeightAt ts (vx q) (vz q) \<ge> 50"
  shows "\<not> tooFlat (appliedRange (applySampledHeights (ts_config ts) hm positions))"
proof -
  let ?applied = "applySampledHeights (ts_config ts) hm positions"
  have heights: "vy ` set ?applied = (\<lambda>p. getHeightAt ts (vx p) (vz p)) ` set positions"
    using applySampledHeights_heights [OF loaded, of positions]
    by (metis list.set_map)
  have "?applied \<noteq> []"
    using p applySampledHeights_length [of "ts_config ts" hm positions] by auto
  then obtain lo hi where r: "appliedRange ?applied = (Some lo, Some hi)"
    and b: "\<forall>a \<in> set ?applied. lo \<le> vy a \<and> vy a \<le> hi"
    using appliedRange_bounds by blast
  have "getHeightAt ts (vx p) (vz p) \<in> vy ` set ?applied"
    and "getHeightAt ts (vx q) (vz q) \<in> vy ` set ?applied"
    using p q heights by auto
  then have "getHeightAt ts (vx p) (vz p) \<le> hi" and "lo \<le> getHeightAt ts (vx q) (vz q)"
    using b by auto
  then have "50 \<le> hi - lo" using spread by linarith
  then show ?thesis by (simp add: r tooFlat_def)
qed

text \<open>
  The claim C5 as stated fails when the loaded heightmap is flat. With a raster of four
  zero samples and four vertices at \<open>x = 0\<close>, \<open>z = 0\<close>, every sampled height is 0, the
  spread is below 50, and \<open>applyElevationData\<close> adds its central mountain: each vertex
  is assigned 200, while \<open>getHeightAt(0, 0)\<close> is 0.
\<close>

theorem flat_mesh_differs_from_getHeightAt:
  "applyElevationData (terrainWith (Some [0, 0, 0, 0]))
       [\<lparr>vx = 0, vy = 0, vz = 0\<rparr>, \<lparr>vx = 0, vy = 0, vz = 0\<rparr>,
        \<lparr>vx = 0, vy = 0, vz = 0\<rparr>, \<lparr>vx = 0, vy = 0, vz = 0\<rparr>]
     = [\<lparr>vx = 0, vy = 200, vz = 0\<rparr>, \<lparr>vx = 0, vy = 200, vz = 0\<rparr>,
        \<lparr>vx = 0, vy = 200, vz = 0\<rparr>, \<lparr>vx = 0, vy = 200, vz = 0\<rparr>]
   \<and> getHeightAt (terrainWith (Some [0, 0, 0, 0])) 0 0 = 0"
proof -
  have sample: "sampleHeightmap [0, 0, 0, 0] (1 / 2) (1 / 2) 2 = 0"
    by (simp add: sampleHeightmap_def js_get_def or0_def Let_def)
  have applied: "applySampledHeights config [0, 0, 0, 0]
       [\<lparr>vx = 0, vy = 0, vz = 0\<rparr>, \<lparr>vx = 0, vy = 0, vz = 0\<rparr>,
        \<lparr>vx = 0, vy = 0, vz = 0\<rparr>, \<lparr>vx = 0, vy = 0, vz = 0\<rparr>]
     = [\<lparr>vx = 0, vy = 0, vz = 0\<rparr>, \<lparr>vx = 0, vy = 0, vz = 0\<rparr>,
        \<lparr>vx = 0, vy = 0, vz = 0\<rparr>, \<lparr>vx = 0, vy = 0, vz = 0\<rparr>]"
    by (simp add: applySampledHeights_def heightmapCoord_def config_def sample Let_def)
  have flat: "tooFlat (appliedRange
       [\<lparr>vx = 0, vy = 0, vz = 0\<rparr>, \<lparr>vx = 0, vy = 0, vz = 0\<rparr>,
        \<lparr>vx = 0, vy = 0, vz = 0\<rparr>, \<lparr>vx = 0, vy = 0, vz = 0\<rparr>])"
    by (simp add: tooFlat_def appliedRange_def trackApplied_def)
  have variation: "flatTerrainVariation 0 0 = 200"
    by (simp add: flatTerrainVariation_def Let_def)
  have mesh: "applyElevationData (terrainWith (Some [0, 0, 0, 0]))
       [\<lparr>vx = 0, vy = 0, vz = 0\<rparr>, \<lparr>vx = 0, vy = 0, vz = 0\<rparr>,
        \<lparr>vx = 0, vy = 0, vz = 0\<rparr>, \<lparr>vx = 0, vy = 0, vz = 0\<rparr>]
     = [\<lparr>vx = 0, vy = 200, vz = 0\<rparr>, \<lparr>vx = 0, vy = 200, vz = 0\<rparr>,
        \<lparr>vx = 0, vy = 200, vz = 0\<rparr>, \<lparr>vx = 0, vy = 200, vz = 0\<rparr>]"
    unfolding applyElevationData_def Let_def
    by (simp add: terrainWith_def applied flat variation)
  have query: "getHeightAt (terrainWith (Some [0, 0, 0, 0])) 0 0 = 0"
    by (simp add: getHeightAt_def terrainWith_def heightmapCoord_def config_def sample Let_def)
  show ?thesis using mesh query by simp
qed

text \<open>
  C5, amended. When a heightmap with at least one sample is loaded and the heights that
  \<open>getHeightAt\<close> gives at two vertices of the mesh differ by at least 50 units, so that
  the mesh is not judged too flat, then \<open>applyElevationData\<close> keeps the \<open>x\<close> and \<open>z\<close> of
  every vertex and assigns to it the height \<open>getHeightAt(x, z)\<close>. The world size of the
  configuration is not 0.
\<close>

theorem applyElevationData_matches_getHeightAt:
  assumes loaded: "heightmapData ts = Some hm" and nonempty: "hm \<noteq> []"
    and world: "worldSize (ts_config ts) \<noteq> 0"
    and p: "p \<in> set positions" and q: "q \<in> set positions"
    and spread: "getHeightAt ts (vx p) (vz p) - getHeightAt ts (vx q) (vz q) \<ge> 50"
  shows "length (applyElevationData ts positions) = length positions
       \<and> (\<forall>i < length positions.
             vx (applyElevationData ts positions ! i) = vx (positions ! i)
           \<and> vz (applyElevationData ts positions ! i) = vz (positions ! i)
           \<and> vy (applyElevationData ts positions ! i)
               = getHeightAt ts (vx (positions ! i)) (vz (positions ! i)))"
proof -
  have "applyElevationData ts positions = applySampledHeights (ts_config ts) hm positions"
    unfolding applyElevationData_def Let_def
    using loaded nonempty not_tooFlat [OF loaded p q spread] by simp
  then show ?thesis
    by (simp add: applySampledHeights_length applySampledHeights_nth
        getHeightAt_loaded [OF loaded])
qed

text \<open>
  The geometry and the raster of the repository's test of \<open>applyElevationData\<close>: four
  vertices at \<open>(\<plusminus>1000, \<plusminus>1000)\<close> over the raster \<open>[0, 10, 20, 30]\<close>. The heights are 0,
  1000, 2000 and 3000.
\<close>

theorem applyElevationData_matches_getHeightAt_witness:
  "heightmapData (terrainWith (Some [0, 10, 20, 30])) = Some [0, 10, 20, 30]
   \<and> [0, 10, 20, 30 :: real] \<noteq> []
   \<and> worldSize (ts_config (terrainWith (Some [0, 10, 20, 30]))) \<noteq> 0
   \<and> \<lparr>vx = 1000, vy = 0, vz = 1000\<rparr> \<in> set testGeometry
   \<and> \<lparr>vx = - 1000, vy = 0, vz = - 1000\<rparr> \<in> set testGeometry
   \<and> getHeightAt (terrainWith (Some [0, 10, 20, 30])) 1000 1000
       - getHeightAt (terrainWith (Some [0, 10, 20, 30])) (- 1000) (- 1000) \<ge> 50
   \<and> length (applyElevationData (terrainWith (Some [0, 10, 20, 30])) testGeometry) = 4
   \<and> vy (applyElevationData (terrainWith (Some [0, 10, 20, 30])) testGeometry ! 0) = 0
   \<and> vy (applyElevationData (terrainWith (Some [0, 10, 20, 30])) testGeometry ! 1) = 1000
   \<and> vy (applyElevationData (terrainWith (Some [0, 10, 20, 30])) testGeometry ! 2) = 2000
   \<and> vy (applyElevationData (terrainWith (Some [0, 10, 20, 30])) testGeometry ! 3) = 3000"
proof -
  let ?ts = "terrainWith (Some [0, 10, 20, 30])"
  have loaded: "heightmapData ?ts = Some [0, 10, 20, 30]"
    by (simp add: terrainWith_def)
  have nonempty: "[0, 10, 20, 30 :: real] \<noteq> []"
    by simp
  have world: "worldSize (ts_config ?ts) \<noteq> 0"
    by (simp add: terrainWith_def config_def)
  have p: "\<lparr>vx = 1000, vy = 0, vz = 1000\<rparr> \<in> set testGeometry"
    and q: "\<lparr>vx = - 1000, vy = 0, vz = - 1000\<rparr> \<in> set testGeometry"
    by (simp_all add: testGeometry_def)
  have h0: "getHeightAt ?ts (- 1000) (- 1000) = 0"
    and h1: "getHeightAt ?ts 1000 (- 1000) = 1000"
    and h2: "getHeightAt ?ts (- 1000) 1000 = 2000"
    and h3: "getHeightAt ?ts 1000 1000 = 3000"
    by (simp_all add: getHeightAt_def terrainWith_def heightmapCoord_def config_def
        sampleHeightmap_def js_get_def or0_def Let_def)
  have spread: "getHeightAt ?ts (vx \<lparr>vx = 1000, vy = 0, vz = 1000\<rparr>) (vz \<lparr>vx = 1000, vy = 0, vz = 1000\<rparr>)
      - getHeightAt ?ts (vx \<lparr>vx = - 1000, vy = 0, vz = - 1000\<rparr>) (vz \<lparr>vx = - 1000, vy = 0, vz = - 1000\<rparr>)
      \<ge> 50"
    using h0 h3 by simp
  show ?thesis
    using applyElevationData_matches_getHeightAt [OF loaded nonempty world p q spread]
      loaded world p q h0 h1 h2 h3
    by (simp add: testGeometry_def)
qed

section \<open>Rounding to a double\<close>

lemma pow2_powr: "pow2 e = 2 powr (of_int e)"
  by (simp add: pow2_def powr_int field_simps)

lemma pow2_pos: "0 < pow2 e"
  by (simp add: pow2_powr)

lemma pow2_add: "pow2 (a + b) = pow2 a * pow2 b"
  by (simp add: pow2_powr powr_add)

lemma pow2_mono: "a \<le> b \<Longrightarrow> pow2 a \<le> pow2 b"
  by (simp add: pow2_powr)

lemma pow2_less_iff: "pow2 a < pow2 b \<longleftrightarrow> a < b"
  by (simp add: pow2_powr)

lemma pow2_nonneg_int: "0 \<le> d \<Longrightarrow> pow2 d = of_int (2 ^ nat d)"
  by (simp add: pow2_def)

lemma pow2_split: "0 \<le> d \<Longrightarrow> pow2 e = of_int (2 ^ nat d) * pow2 (e - d)"
proof -
  assume d: "0 \<le> d"
  have "pow2 (d + (e - d)) = pow2 d * pow2 (e - d)" by (rule pow2_add)
  then show ?thesis using d by (simp add: pow2_nonneg_int)
qed

lemma binade:
  assumes "y \<noteq> 0"
  shows "pow2 \<lfloor>log 2 \<bar>y\<bar>\<rfloor> \<le> \<bar>y\<bar>" and "\<bar>y\<bar> < pow2 (\<lfloor>log 2 \<bar>y\<bar>\<rfloor> + 1)"
proof -
  have "0 < \<bar>y\<bar>" using assms by simp
  then have "2 powr (of_int \<lfloor>log 2 \<bar>y\<bar>\<rfloor>) \<le> \<bar>y\<bar> \<and> \<bar>y\<bar> < 2 powr (of_int (\<lfloor>log 2 \<bar>y\<bar>\<rfloor> + 1))"
    using floor_log_eq_powr_iff [of "\<bar>y\<bar>" 2 "\<lfloor>log 2 \<bar>y\<bar>\<rfloor>"] by simp
  then show "pow2 \<lfloor>log 2 \<bar>y\<bar>\<rfloor> \<le> \<bar>y\<bar>" and "\<bar>y\<bar> < pow2 (\<lfloor>log 2 \<bar>y\<bar>\<rfloor> + 1)"
    by (simp_all add: pow2_powr)
qed

lemma exponent_eq:
  assumes "pow2 e \<le> \<bar>y\<bar>" and "\<bar>y\<bar> < pow2 (e + 1)"
  shows "\<lfloor>log 2 \<bar>y\<bar>\<rfloor> = e"
proof -
  have "0 < \<bar>y\<bar>" using assms(1) pow2_pos [of e] by linarith
  then show ?thesis
    using floor_log_eq_powr_iff [of "\<bar>y\<bar>" 2 e] assms by (simp add: pow2_powr)
qed

lemma ieee_binade:
  assumes "pow2 e \<le> \<bar>y\<bar>" and "\<bar>y\<bar> < pow2 (e + 1)"
  shows "ieee y = of_int (roundHalfEven (y / pow2 (e - 52))) * pow2 (e - 52)"
proof -
  have "y \<noteq> 0" using assms(1) pow2_pos [of e] by auto
  then show ?thesis
    by (simp add: ieee_def Let_def exponent_eq [OF assms])
qed

lemma roundHalfEven_int: "roundHalfEven (of_int k) = k"
  by (simp add: roundHalfEven_def)

lemma roundHalfEven_cases: "roundHalfEven t = \<lfloor>t\<rfloor> \<or> roundHalfEven t = \<lfloor>t\<rfloor> + 1"
  by (simp add: roundHalfEven_def Let_def)

lemma roundHalfEven_error: "\<bar>of_int (roundHalfEven t) - t\<bar> \<le> 1 / 2"
proof -
  define r where "r = t - of_int \<lfloor>t\<rfloor>"
  have r: "0 \<le> r" "r < 1" unfolding r_def by linarith+
  have t: "t = of_int \<lfloor>t\<rfloor> + r" unfolding r_def by simp
  consider "r < 1 / 2" | "1 / 2 < r" | "r = 1 / 2" by linarith
  then show ?thesis
  proof cases
    case 1
    then have "roundHalfEven t = \<lfloor>t\<rfloor>"
      by (simp add: roundHalfEven_def Let_def r_def)
    with 1 r show ?thesis using t by linarith
  next
    case 2
    then have "roundHalfEven t = \<lfloor>t\<rfloor> + 1"
      by (simp add: roundHalfEven_def Let_def r_def)
    with 2 r show ?thesis using t by (simp add: abs_if)
  next
    case 3
    have "roundHalfEven t = \<lfloor>t\<rfloor> \<or> roundHalfEven t = \<lfloor>t\<rfloor> + 1"
      by (rule roundHalfEven_cases)
    with 3 show ?thesis using t by (auto simp: abs_if)
  qed
qed

lemma roundHalfEven_mono:
  assumes "s \<le> t"
  shows "roundHalfEven s \<le> roundHalfEven t"
proof (cases "\<lfloor>s\<rfloor> = \<lfloor>t\<rfloor>")
  case True
  with assms show ?thesis
    by (auto simp: roundHalfEven_def Let_def)
next
  case False
  with assms have "\<lfloor>s\<rfloor> + 1 \<le> \<lfloor>t\<rfloor>"
    using floor_mono [OF assms] by linarith
  moreover have "roundHalfEven s \<le> \<lfloor>s\<rfloor> + 1" "\<lfloor>t\<rfloor> \<le> roundHalfEven t"
    using roundHalfEven_cases [of s] roundHalfEven_cases [of t] by auto
  ultimately show ?thesis by linarith
qed


lemma roundHalfEven_minus: "roundHalfEven (- t) = - roundHalfEven t"
proof (cases "t = of_int \<lfloor>t\<rfloor>")
  case True
  then obtain k where "t = of_int k" by blast
  then show ?thesis
    using roundHalfEven_int [of k] roundHalfEven_int [of "- k"] by simp
next
  case False
  define r where "r = t - of_int \<lfloor>t\<rfloor>"
  have r: "0 < r" "r < 1" unfolding r_def using False by linarith+
  have fl: "\<lfloor>- t\<rfloor> = - \<lfloor>t\<rfloor> - 1"
    using False by (simp add: floor_minus ceiling_altdef)
  have r': "- t - of_int \<lfloor>- t\<rfloor> = 1 - r"
    unfolding fl r_def by simp
  consider "r < 1 / 2" | "1 / 2 < r" | "r = 1 / 2" by linarith
  then show ?thesis
  proof cases
    case 1
    then show ?thesis
      using r r' by (simp add: roundHalfEven_def Let_def fl r_def [symmetric])
  next
    case 2
    then show ?thesis
      using r r' by (simp add: roundHalfEven_def Let_def fl r_def [symmetric])
  next
    case 3
    then show ?thesis
      using r r' by (simp add: roundHalfEven_def Let_def fl r_def [symmetric])
  qed
qed

lemma ieee_minus: "ieee (- y) = - ieee y"
  by (simp add: ieee_def Let_def roundHalfEven_minus)

lemma ieee_range:
  assumes "0 < y" and "pow2 e \<le> y" and "y < pow2 (e + 1)"
  shows "pow2 e \<le> ieee y" and "ieee y \<le> pow2 (e + 1)"
proof -
  let ?ulp = "pow2 (e - 52)"
  have ulp: "0 < ?ulp" by (rule pow2_pos)
  have y: "ieee y = of_int (roundHalfEven (y / ?ulp)) * ?ulp"
    using assms by (intro ieee_binade) simp_all
  have lo: "pow2 e = of_int (2 ^ 52) * ?ulp"
    using pow2_split [of 52 e] by simp
  have hi: "pow2 (e + 1) = of_int (2 ^ 53) * ?ulp"
    using pow2_split [of 53 "e + 1"] by simp
  have "of_int (2 ^ 52) \<le> y / ?ulp"
    using assms(2) ulp unfolding lo by (simp add: field_simps)
  then have "roundHalfEven (of_int (2 ^ 52)) \<le> roundHalfEven (y / ?ulp)"
    by (rule roundHalfEven_mono)
  then have a: "(2 ^ 52 :: int) \<le> roundHalfEven (y / ?ulp)"
    by (simp only: roundHalfEven_int)
  have "y / ?ulp \<le> of_int (2 ^ 53)"
    using assms(3) ulp unfolding hi by (simp add: field_simps)
  then have "roundHalfEven (y / ?ulp) \<le> roundHalfEven (of_int (2 ^ 53))"
    by (rule roundHalfEven_mono)
  then have b: "roundHalfEven (y / ?ulp) \<le> (2 ^ 53 :: int)"
    by (simp only: roundHalfEven_int)
  from a have "(of_int (2 ^ 52) :: real) \<le> of_int (roundHalfEven (y / ?ulp))"
    by (simp only: of_int_le_iff)
  then have "of_int (2 ^ 52) * ?ulp \<le> of_int (roundHalfEven (y / ?ulp)) * ?ulp"
    using ulp by (intro mult_right_mono) simp_all
  then show "pow2 e \<le> ieee y" unfolding y lo .
  from b have "(of_int (roundHalfEven (y / ?ulp)) :: real) \<le> of_int (2 ^ 53)"
    by (simp only: of_int_le_iff)
  then have "of_int (roundHalfEven (y / ?ulp)) * ?ulp \<le> of_int (2 ^ 53) * ?ulp"
    using ulp by (intro mult_right_mono) simp_all
  then show "ieee y \<le> pow2 (e + 1)" unfolding y hi .
qed

lemma ieee_mono_pos:
  assumes "0 < a" and "a \<le> b"
  shows "ieee a \<le> ieee b"
proof -
  define ea where "ea = \<lfloor>log 2 \<bar>a\<bar>\<rfloor>"
  define eb where "eb = \<lfloor>log 2 \<bar>b\<bar>\<rfloor>"
  have b: "0 < b" using assms by linarith
  have a1: "pow2 ea \<le> a" "a < pow2 (ea + 1)"
    using binade [of a] assms(1) by (simp_all add: ea_def)
  have b1: "pow2 eb \<le> b" "b < pow2 (eb + 1)"
    using binade [of b] b by (simp_all add: eb_def)
  have "pow2 ea < pow2 (eb + 1)" using a1 b1 assms(2) by linarith
  then have le: "ea \<le> eb" by (simp add: pow2_less_iff)
  show ?thesis
  proof (cases "ea = eb")
    case True
    have ya: "ieee a = of_int (roundHalfEven (a / pow2 (ea - 52))) * pow2 (ea - 52)"
      using a1 assms(1) by (intro ieee_binade) simp_all
    have yb: "ieee b = of_int (roundHalfEven (b / pow2 (ea - 52))) * pow2 (ea - 52)"
      using b1 b True by (intro ieee_binade) simp_all
    have "a / pow2 (ea - 52) \<le> b / pow2 (ea - 52)"
      using assms(2) pow2_pos [of "ea - 52"] by (simp add: divide_right_mono)
    then have "roundHalfEven (a / pow2 (ea - 52)) \<le> roundHalfEven (b / pow2 (ea - 52))"
      by (rule roundHalfEven_mono)
    then show ?thesis
      unfolding ya yb using pow2_pos [of "ea - 52"] by (intro mult_right_mono) simp_all
  next
    case False
    with le have "ea + 1 \<le> eb" by simp
    then have "pow2 (ea + 1) \<le> pow2 eb" by (rule pow2_mono)
    moreover have "ieee a \<le> pow2 (ea + 1)"
      using ieee_range(2) [OF assms(1) a1] .
    moreover have "pow2 eb \<le> ieee b"
      using ieee_range(1) [OF b b1] .
    ultimately show ?thesis by linarith
  qed
qed

lemma ieee_zero: "ieee 0 = 0"
  by (simp add: ieee_def)

lemma ieee_pos: "0 < y \<Longrightarrow> 0 < ieee y"
  using ieee_range(1) [of y "\<lfloor>log 2 \<bar>y\<bar>\<rfloor>"] binade [of y] pow2_pos [of "\<lfloor>log 2 \<bar>y\<bar>\<rfloor>"]
  by simp

lemma ieee_neg: "y < 0 \<Longrightarrow> ieee y < 0"
  using ieee_pos [of "- y"] by (simp add: ieee_minus)

lemma ieee_mono:
  assumes "a \<le> b"
  shows "ieee a \<le> ieee b"
proof -
  consider "0 < a" | "a = 0" | "a < 0" "0 \<le> b" | "a < 0" "b < 0" by linarith
  then show ?thesis
  proof cases
    case 1
    then show ?thesis using assms by (rule ieee_mono_pos)
  next
    case 2
    then show ?thesis
      using assms ieee_pos [of b] by (cases "b = 0") (auto simp: ieee_zero less_eq_real_def)
  next
    case 3
    then show ?thesis
      using ieee_neg [of a] ieee_pos [of b] by (cases "b = 0") (auto simp: ieee_zero less_eq_real_def)
  next
    case 4
    then have "ieee (- b) \<le> ieee (- a)"
      using assms by (intro ieee_mono_pos) simp_all
    then show ?thesis by (simp add: ieee_minus)
  qed
qed


lemma ieee_exact:
  assumes "\<bar>k\<bar> < 2 ^ 53"
  shows "ieee (of_int k * pow2 j) = of_int k * pow2 j"
proof (cases "k = 0")
  case True
  then show ?thesis by (simp add: ieee_zero)
next
  case False
  define y where "y = of_int k * pow2 j"
  define e where "e = \<lfloor>log 2 \<bar>y\<bar>\<rfloor>"
  have y0: "y \<noteq> 0" using False pow2_pos [of j] by (simp add: y_def)
  have b: "pow2 e \<le> \<bar>y\<bar>" "\<bar>y\<bar> < pow2 (e + 1)"
    using binade [OF y0] by (simp_all add: e_def)
  have "\<bar>y\<bar> = of_int \<bar>k\<bar> * pow2 j"
    using pow2_pos [of j] by (simp add: y_def abs_mult)
  also have "\<dots> < of_int (2 ^ 53) * pow2 j"
    using assms pow2_pos [of j] by (intro mult_strict_right_mono) (simp_all only: of_int_less_iff)
  also have "\<dots> = pow2 (53 + j)"
    using pow2_split [of 53 "53 + j"] by simp
  finally have "pow2 e < pow2 (53 + j)" using b(1) by linarith
  then have d: "0 \<le> j - (e - 52)" by (simp add: pow2_less_iff)
  have pj: "pow2 j = of_int (2 ^ nat (j - (e - 52))) * pow2 (e - 52)"
    using pow2_split [OF d, of j] by simp
  have t: "y / pow2 (e - 52) = of_int (k * 2 ^ nat (j - (e - 52)))"
    using pow2_pos [of "e - 52"] by (simp add: y_def pj)
  have "ieee y = of_int (roundHalfEven (y / pow2 (e - 52))) * pow2 (e - 52)"
    using b by (rule ieee_binade)
  also have "\<dots> = of_int (k * 2 ^ nat (j - (e - 52))) * pow2 (e - 52)"
    unfolding t by (simp only: roundHalfEven_int)
  also have "\<dots> = y"
    by (simp add: y_def pj)
  finally show ?thesis by (simp add: y_def)
qed

lemma ieee_int: "\<bar>k\<bar> < 2 ^ 53 \<Longrightarrow> ieee (of_int k) = of_int k"
  using ieee_exact [of k 0] by (simp add: pow2_def)

lemma ieee_nat: "n < 2 ^ 53 \<Longrightarrow> ieee (real n) = real n"
  using ieee_int [of "int n"] by simp

lemma ieee_error: "\<bar>ieee y - y\<bar> \<le> \<bar>y\<bar> / 2 ^ 53"
proof (cases "y = 0")
  case True
  then show ?thesis by (simp add: ieee_zero)
next
  case False
  define e where "e = \<lfloor>log 2 \<bar>y\<bar>\<rfloor>"
  let ?ulp = "pow2 (e - 52)"
  have ulp: "0 < ?ulp" by (rule pow2_pos)
  have b: "pow2 e \<le> \<bar>y\<bar>" "\<bar>y\<bar> < pow2 (e + 1)"
    using binade [OF False] by (simp_all add: e_def)
  have y: "ieee y = of_int (roundHalfEven (y / ?ulp)) * ?ulp"
    using b by (rule ieee_binade)
  have "ieee y - y = (of_int (roundHalfEven (y / ?ulp)) - y / ?ulp) * ?ulp"
    using ulp by (simp add: y field_simps)
  then have "\<bar>ieee y - y\<bar> = \<bar>of_int (roundHalfEven (y / ?ulp)) - y / ?ulp\<bar> * ?ulp"
    using ulp by (simp add: abs_mult)
  also have "\<dots> \<le> 1 / 2 * ?ulp"
    using roundHalfEven_error [of "y / ?ulp"] ulp by (intro mult_right_mono) simp_all
  also have "\<dots> = pow2 e / 2 ^ 53"
    using pow2_split [of 52 e] by simp
  also have "\<dots> \<le> \<bar>y\<bar> / 2 ^ 53"
    using b(1) by (simp add: divide_right_mono)
  finally show ?thesis .
qed

lemma ieee_ge: "\<bar>k\<bar> < 2 ^ 53 \<Longrightarrow> of_int k * pow2 j \<le> y \<Longrightarrow> of_int k * pow2 j \<le> ieee y"
  using ieee_mono [of "of_int k * pow2 j" y] ieee_exact [of k j] by simp

lemma ieee_le: "\<bar>k\<bar> < 2 ^ 53 \<Longrightarrow> y \<le> of_int k * pow2 j \<Longrightarrow> ieee y \<le> of_int k * pow2 j"
  using ieee_mono [of y "of_int k * pow2 j"] ieee_exact [of k j] by simp


lemma ieee_one: "ieee 1 = 1"
  using ieee_int [of 1] by simp

lemma ieee_numeral:
  assumes "(numeral w :: int) < 2 ^ 53"
  shows "ieee (numeral w) = numeral w"
  using ieee_int [of "numeral w"] assms by simp

lemma ieee_quarters: "ieee (1 / 4) = 1 / 4" "ieee (3 / 4) = 3 / 4"
  using ieee_exact [of 1 "- 2"] ieee_exact [of 3 "- 2"] by (simp_all add: pow2_def)

section \<open>The coordinate frames of the two components\<close>

lemma sqrt_16: "sqrt 16 = 4"
  using real_sqrt_abs [of 4] by simp

text \<open>
  C6 states that \<open>MapDataManager.getElevationAt\<close> and \<open>TerrainSystem\<close> convert a world
  point to heightmap space by the same map, with one world size. The code has two sizes,
  2000 in the manager and 1000 in the terrain configuration: the world coordinate 500 is
  converted to 0.75 by the manager and to 1 by the terrain system, and over the test
  raster the point \<open>(500, -500)\<close> reads row 1 in the manager (35) and row 0 in the terrain
  system (30, scaled by the height scale).
\<close>

theorem coordinate_frames_differ:
  "gameWorldSize coordinateTransform = 2000
   \<and> worldSize config = 1000
   \<and> normalizedCoord 500 = 3 / 4
   \<and> heightmapCoord config 500 = 1
   \<and> getElevationAt (Some (snapshotWith (Some testRaster) [] [])) 500 (- 500) = 35
   \<and> getHeightAt (terrainWith (Some testRaster)) 500 (- 500) = 30 * heightScale config"
proof (intro conjI)
  show "gameWorldSize coordinateTransform = 2000"
    by (simp add: coordinateTransform_def)
  show "worldSize config = 1000"
    by (simp add: config_def)
  show "normalizedCoord 500 = 3 / 4"
    by (simp add: normalizedCoord_def ieee_numeral ieee_quarters)
  show "heightmapCoord config 500 = 1"
    by (simp add: heightmapCoord_def config_def)
  show "getElevationAt (Some (snapshotWith (Some testRaster) [] [])) 500 (- 500) = 35"
    by (simp add: getElevationAt_def snapshotWith_def testRaster_def normalizedCoord_def
        sqrt_16 ieee_numeral ieee_one ieee_quarters js_get_def or0_def Let_def)
  show "getHeightAt (terrainWith (Some testRaster)) 500 (- 500) = 30 * heightScale config"
    by (simp add: getHeightAt_def terrainWith_def testRaster_def heightmapCoord_def config_def
        sampleHeightmap_def sqrt_16 js_get_def or0_def Let_def)
qed

section \<open>Elevation at a point of the game world\<close>

lemma sqrt_square_nat: "sqrt (real (n * n)) = real n"
  by (simp add: real_sqrt_mult)

lemma clampedCell_less: "0 < n \<Longrightarrow> clampedCell n x < n"
  by (simp add: clampedCell_def)

lemma clamp_below:
  fixes m :: int
  shows "0 < n \<Longrightarrow> m \<le> 0 \<Longrightarrow> nat (max 0 (min (int n - 1) m)) = 0"
  by simp

lemma clamp_above:
  fixes m :: int
  shows "0 < n \<Longrightarrow> int n \<le> m \<Longrightarrow> nat (max 0 (min (int n - 1) m)) = n - 1"
  by (simp add: min_def max_def)

lemma clamped_real:
  assumes "0 < n"
  shows "max 0 (min (real n - 1) (of_int \<lfloor>ieee (normalizedCoord x * real n)\<rfloor>))
    = real (clampedCell n x)"
proof -
  let ?m = "\<lfloor>ieee (normalizedCoord x * real n)\<rfloor>"
  have "max 0 (min (real n - 1) (of_int ?m)) = of_int (max 0 (min (int n - 1) ?m))"
    by (simp add: of_int_max of_int_min)
  also have "\<dots> = real (clampedCell n x)"
    by (simp add: clampedCell_def)
  finally show ?thesis .
qed

text \<open>Over a square raster the index arithmetic is exact and the code reads the clamped cell.\<close>

lemma getElevationAt_cell:
  assumes elev: "elevation md = Some elev" and len: "length elev = n * n" and n: "0 < n"
    and small: "n * n < 2 ^ 53"
  shows "getElevationAt (Some md) x z = elev ! (clampedCell n z * n + clampedCell n x)"
proof -
  have nn: "n \<le> n * n" using n by simp
  then have n53: "n < 2 ^ 53" using small by linarith
  have sz: "ieee (sqrt (real (length elev))) = real n"
    using n53 by (simp add: len sqrt_square_nat ieee_nat)
  have "ieee (real n - 1) = ieee (real (n - 1))"
    using n by (simp add: of_nat_diff)
  also have "\<dots> = real (n - 1)"
    using n53 by (intro ieee_nat) simp
  finally have sz1: "ieee (real n - 1) = real n - 1"
    using n by (simp add: of_nat_diff)
  have cx: "clampedCell n x < n" and cz: "clampedCell n z < n"
    using n by (simp_all add: clampedCell_less)
  have idx: "clampedCell n z * n + clampedCell n x < n * n"
    using cell_index_bound [OF cx cz] .
  have "clampedCell n z * n \<le> clampedCell n z * n + clampedCell n x" by simp
  then have row53: "clampedCell n z * n < 2 ^ 53" using idx small by linarith
  have row: "ieee (real (clampedCell n z) * real n) = real (clampedCell n z * n)"
    using ieee_nat [OF row53] by simp
  have "ieee (real (clampedCell n z * n) + real (clampedCell n x))
      = ieee (real (clampedCell n z * n + clampedCell n x))"
    by simp
  also have "\<dots> = real (clampedCell n z * n + clampedCell n x)"
    using idx small by (intro ieee_nat) linarith
  finally have index: "ieee (real (clampedCell n z * n) + real (clampedCell n x))
      = real (clampedCell n z * n + clampedCell n x)" .
  have "getElevationAt (Some md) x z
      = or0 (js_get elev (real (clampedCell n z * n + clampedCell n x)))"
    unfolding getElevationAt_def Let_def
    by (simp only: option.case elev sz sz1 clamped_real [OF n] row index)
  also have "\<dots> = elev ! (clampedCell n z * n + clampedCell n x)"
    using idx by (simp add: js_get_cell len or0_def)
  finally show ?thesis .
qed

lemma normalizedCoord_low: "x \<le> - 1000 \<Longrightarrow> normalizedCoord x \<le> 0"
proof -
  assume "x \<le> - 1000"
  then have "ieee (x + 1000) \<le> 0"
    using ieee_mono [of "x + 1000" 0] by (simp add: ieee_zero)
  then have "ieee (x + 1000) / 2000 \<le> 0" by simp
  then show ?thesis
    unfolding normalizedCoord_def using ieee_mono [of "ieee (x + 1000) / 2000" 0]
    by (simp add: ieee_zero)
qed

lemma normalizedCoord_high: "1000 \<le> x \<Longrightarrow> 1 \<le> normalizedCoord x"
proof -
  assume "1000 \<le> x"
  then have "ieee 2000 \<le> ieee (x + 1000)"
    by (intro ieee_mono) simp
  then have "1 \<le> ieee (x + 1000) / 2000"
    by (simp add: ieee_numeral)
  then have "ieee 1 \<le> ieee (ieee (x + 1000) / 2000)"
    by (rule ieee_mono)
  then show ?thesis
    by (simp add: normalizedCoord_def ieee_one)
qed

lemma clampedCell_low:
  assumes "0 < n" and "x \<le> - 1000"
  shows "clampedCell n x = 0"
proof -
  have "normalizedCoord x * real n \<le> 0"
    using normalizedCoord_low [OF assms(2)] by (simp add: mult_le_0_iff)
  then have "ieee (normalizedCoord x * real n) \<le> 0"
    using ieee_mono [of "normalizedCoord x * real n" 0] by (simp add: ieee_zero)
  then have "\<lfloor>ieee (normalizedCoord x * real n)\<rfloor> \<le> 0"
    by (metis floor_mono floor_zero)
  with assms(1) show ?thesis
    unfolding clampedCell_def by (intro clamp_below) simp_all
qed

lemma clampedCell_high:
  assumes "0 < n" and "n < 2 ^ 53" and "1000 \<le> x"
  shows "clampedCell n x = n - 1"
proof -
  have "1 * real n \<le> normalizedCoord x * real n"
    using normalizedCoord_high [OF assms(3)] by (intro mult_right_mono) simp_all
  then have "ieee (real n) \<le> ieee (normalizedCoord x * real n)"
    by (intro ieee_mono) simp
  then have "real n \<le> ieee (normalizedCoord x * real n)"
    using ieee_nat [OF assms(2)] by simp
  then have "int n \<le> \<lfloor>ieee (normalizedCoord x * real n)\<rfloor>"
    by (simp only: le_floor_iff of_int_of_nat_eq)
  with assms(1) show ?thesis
    unfolding clampedCell_def by (intro clamp_above) simp_all
qed

text \<open>A rounding changes a number that is not negative by at most one part in \<open>2\<^sup>5\<^sup>3\<close>.\<close>

lemma ieee_relative:
  assumes "0 \<le> y"
  shows "y * (1 - 1 / 2 ^ 53) \<le> ieee y" and "ieee y \<le> y * (1 + 1 / 2 ^ 53)"
  using ieee_error [of y] assms by (simp_all add: abs_if field_simps split: if_splits)


text \<open>
  Inside the world the rounded grid position differs from the exact one by at most four
  roundings' worth, one part in \<open>2\<^sup>5\<^sup>1\<close>.
\<close>

lemma gridCoord_rounded:
  assumes x: "- 1000 \<le> x"
  shows "gridCoord n x * (1 - 1 / 2 ^ 51) \<le> ieee (normalizedCoord x * real n)"
    and "ieee (normalizedCoord x * real n) \<le> gridCoord n x * (1 + 1 / 2 ^ 51)"
    and "0 \<le> ieee (normalizedCoord x * real n)"
proof -
  define U :: real where "U = 1 + 1 / 2 ^ 53"
  define L :: real where "L = 1 - 1 / 2 ^ 53"
  define a where "a = x + 1000"
  define a1 where "a1 = ieee a"
  define b1 where "b1 = ieee (a1 / 2000)"
  define q where "q = ieee (b1 * real n)"
  have U: "0 \<le> U" and L: "0 \<le> L" by (simp_all add: U_def L_def)
  have U3: "U * U * U \<le> 1 + 1 / 2 ^ 51" by (simp add: U_def)
  have L3: "1 - 1 / 2 ^ 51 \<le> L * L * L" by (simp add: L_def)
  have a: "0 \<le> a" using x by (simp add: a_def)
  have a1: "0 \<le> a1" using ieee_mono [OF a] by (simp add: a1_def ieee_zero)
  then have b: "0 \<le> a1 / 2000" by simp
  have b1: "0 \<le> b1" using ieee_mono [OF b] by (simp add: b1_def ieee_zero)
  then have c: "0 \<le> b1 * real n" by simp
  have q: "0 \<le> q" using ieee_mono [OF c] by (simp add: q_def ieee_zero)
  have p: "gridCoord n x = a / 2000 * real n" by (simp add: gridCoord_def a_def)
  have pn: "0 \<le> a / 2000 * real n" using a by simp
  have qq: "ieee (normalizedCoord x * real n) = q"
    by (simp add: q_def b1_def a1_def a_def normalizedCoord_def)
  have "a1 \<le> a * U" using ieee_relative(2) [OF a] by (simp add: a1_def U_def)
  then have "a1 / 2000 \<le> a * U / 2000" by simp
  moreover have "b1 \<le> a1 / 2000 * U" using ieee_relative(2) [OF b] by (simp add: b1_def U_def)
  moreover have "a1 / 2000 * U \<le> a * U / 2000 * U"
    using \<open>a1 / 2000 \<le> a * U / 2000\<close> U by (rule mult_right_mono)
  ultimately have "b1 \<le> a * U / 2000 * U" by linarith
  then have "b1 * real n \<le> a * U / 2000 * U * real n"
    by (rule mult_right_mono) simp
  then have "b1 * real n * U \<le> a * U / 2000 * U * real n * U"
    using U by (rule mult_right_mono)
  moreover have "q \<le> b1 * real n * U" using ieee_relative(2) [OF c] by (simp add: q_def U_def)
  ultimately have "q \<le> a / 2000 * real n * (U * U * U)" by (simp add: algebra_simps)
  also have "\<dots> \<le> a / 2000 * real n * (1 + 1 / 2 ^ 51)"
    using U3 pn by (rule mult_left_mono)
  finally show "ieee (normalizedCoord x * real n) \<le> gridCoord n x * (1 + 1 / 2 ^ 51)"
    unfolding qq p .
  have "a * L \<le> a1" using ieee_relative(1) [OF a] by (simp add: a1_def L_def)
  then have "a * L / 2000 \<le> a1 / 2000" by simp
  then have "a * L / 2000 * L \<le> a1 / 2000 * L"
    using L by (rule mult_right_mono)
  moreover have "a1 / 2000 * L \<le> b1" using ieee_relative(1) [OF b] by (simp add: b1_def L_def)
  ultimately have "a * L / 2000 * L \<le> b1" by linarith
  then have "a * L / 2000 * L * real n \<le> b1 * real n"
    by (rule mult_right_mono) simp
  then have "a * L / 2000 * L * real n * L \<le> b1 * real n * L"
    using L by (rule mult_right_mono)
  moreover have "b1 * real n * L \<le> q" using ieee_relative(1) [OF c] by (simp add: q_def L_def)
  ultimately have low: "a / 2000 * real n * (L * L * L) \<le> q" by (simp add: algebra_simps)
  have "a / 2000 * real n * (1 - 1 / 2 ^ 51) \<le> a / 2000 * real n * (L * L * L)"
    using L3 pn by (rule mult_left_mono)
  with low show "gridCoord n x * (1 - 1 / 2 ^ 51) \<le> ieee (normalizedCoord x * real n)"
    unfolding qq p by linarith
  show "0 \<le> ieee (normalizedCoord x * real n)"
    unfolding qq by (rule q)
qed

lemma clampedCell_near_gridCoord:
  assumes n: "0 < n" and lo: "- 1000 \<le> x" and hi: "x \<le> 1000"
  shows "real (clampedCell n x) \<le> gridCoord n x * (1 + 1 / 2 ^ 51)"
    and "gridCoord n x * (1 - 1 / 2 ^ 51) < real (clampedCell n x) + 1"
proof -
  define q where "q = ieee (normalizedCoord x * real n)"
  define p where "p = gridCoord n x"
  have q0: "0 \<le> q" and qu: "q \<le> p * (1 + 1 / 2 ^ 51)" and ql: "p * (1 - 1 / 2 ^ 51) \<le> q"
    using gridCoord_rounded [OF lo, of n] by (simp_all add: q_def p_def)
  have f0: "0 \<le> \<lfloor>q\<rfloor>" using q0 by simp
  have p0: "0 \<le> p" using lo by (simp add: p_def gridCoord_def)
  have "(x + 1000) / 2000 \<le> 1" using hi by simp
  then have "(x + 1000) / 2000 * real n \<le> 1 * real n"
    by (intro mult_right_mono) simp_all
  then have pn: "p \<le> real n" by (simp add: p_def gridCoord_def)
  have cell: "clampedCell n x = nat (max 0 (min (int n - 1) \<lfloor>q\<rfloor>))"
    by (simp add: clampedCell_def q_def)
  have both: "real (clampedCell n x) \<le> p * (1 + 1 / 2 ^ 51)
      \<and> p * (1 - 1 / 2 ^ 51) < real (clampedCell n x) + 1"
  proof (cases "\<lfloor>q\<rfloor> \<le> int n - 1")
    case True
    with f0 have "max 0 (min (int n - 1) \<lfloor>q\<rfloor>) = \<lfloor>q\<rfloor>"
      by simp
    with f0 have c: "real (clampedCell n x) = of_int \<lfloor>q\<rfloor>"
      by (simp add: cell)
    have "of_int \<lfloor>q\<rfloor> \<le> q" "q < of_int \<lfloor>q\<rfloor> + 1" by linarith+
    with qu ql c show ?thesis by linarith
  next
    case False
    with n have "max 0 (min (int n - 1) \<lfloor>q\<rfloor>) = int n - 1"
      by simp
    with n have c: "real (clampedCell n x) = real n - 1"
      by (simp add: cell of_nat_diff)
    from False have "int n \<le> \<lfloor>q\<rfloor>"
      by simp
    then have "real n \<le> of_int \<lfloor>q\<rfloor>"
      by (metis of_int_of_nat_eq of_int_le_iff)
    moreover have "of_int \<lfloor>q\<rfloor> \<le> q" by linarith
    ultimately have up: "real n - 1 \<le> p * (1 + 1 / 2 ^ 51)" using qu by linarith
    have "p * (1 - 1 / 2 ^ 51) < real n"
    proof (cases "p = 0")
      case True
      with n show ?thesis by simp
    next
      case False
      with p0 have "0 < p" by simp
      then have "p * (1 - 1 / 2 ^ 51) < p * 1"
        by (intro mult_strict_left_mono) simp_all
      with pn show ?thesis by simp
    qed
    with up c show ?thesis by simp
  qed
  then show "real (clampedCell n x) \<le> gridCoord n x * (1 + 1 / 2 ^ 51)"
    and "gridCoord n x * (1 - 1 / 2 ^ 51) < real (clampedCell n x) + 1"
    by (simp_all add: p_def)
qed

lemma ieee_between:
  assumes "\<bar>k\<bar> < 2 ^ 53" and "\<bar>l\<bar> < 2 ^ 53"
    and "of_int k * pow2 i \<le> y" and "y \<le> of_int l * pow2 j"
  shows "of_int k * pow2 i \<le> ieee y" and "ieee y \<le> of_int l * pow2 j"
  using ieee_ge [OF assms(1,3)] ieee_le [OF assms(2,4)] by simp_all

lemma quarters_between:
  assumes "real_of_int k / 4 \<le> y" and "y \<le> real_of_int l / 4"
    and "\<bar>k\<bar> < 2 ^ 53" and "\<bar>l\<bar> < 2 ^ 53"
  shows "real_of_int k / 4 \<le> ieee y" and "ieee y \<le> real_of_int l / 4"
  using ieee_between [of k l "- 2" y "- 2"] assms by (simp_all add: pow2_def)

lemma six_samples_side:
  "9 / 4 \<le> ieee (sqrt (real (length sixSamples)))"
  "ieee (sqrt (real (length sixSamples))) \<le> 11 / 4"
proof -
  have "(9 / 4) \<le> sqrt 6"
    by (rule real_le_rsqrt) (simp add: power2_eq_square)
  moreover have "sqrt 6 \<le> 11 / 4"
    by (rule real_le_lsqrt) (simp_all add: power2_eq_square)
  ultimately show "9 / 4 \<le> ieee (sqrt (real (length sixSamples)))"
    and "ieee (sqrt (real (length sixSamples))) \<le> 11 / 4"
    using quarters_between [of 9 "sqrt 6" 11] by (simp_all add: sixSamples_def)
qed

text \<open>
  The claim C8 as stated fails for a raster whose length is not a square. With six
  samples the side \<open>Math.sqrt(6)\<close> is not a whole number, and at the point
  \<open>(3000, -3000)\<close>, outside the world on both axes, the clamped column is \<open>size - 1\<close>,
  about 1.45: the index is not a whole number, the read gives \<open>undefined\<close>, and the
  result is 0, which is none of the samples.
\<close>

theorem six_samples_edge_is_zero:
  "getElevationAt (Some (snapshotWith (Some sixSamples) [] [])) 3000 (- 3000) = 0
   \<and> 0 \<notin> set sixSamples"
proof -
  define sz where "sz = ieee (sqrt (real (length sixSamples)))"
  define w where "w = ieee (sz - 1)"
  have sz: "9 / 4 \<le> sz" "sz \<le> 11 / 4"
    using six_samples_side by (simp_all add: sz_def)
  have w: "5 / 4 \<le> w" "w \<le> 7 / 4"
    using quarters_between [of 5 "sz - 1" 7] sz by (simp_all add: w_def)
  have nx: "normalizedCoord 3000 = 2"
    by (simp add: normalizedCoord_def ieee_numeral)
  have nz: "normalizedCoord (- 3000) = - 1"
    using ieee_minus [of 2000] ieee_minus [of 1]
    by (simp add: normalizedCoord_def ieee_numeral ieee_one)
  have "18 / 4 \<le> ieee (2 * sz)"
    using quarters_between(1) [of 18 "2 * sz" 22] sz by simp
  then have "4 \<le> \<lfloor>ieee (2 * sz)\<rfloor>"
    by (simp add: le_floor_iff)
  then have "(4 :: real) \<le> of_int \<lfloor>ieee (2 * sz)\<rfloor>"
    by (metis of_int_le_iff of_int_numeral)
  then have "w \<le> of_int \<lfloor>ieee (2 * sz)\<rfloor>"
    using w by linarith
  then have "min w (of_int \<lfloor>ieee (2 * sz)\<rfloor>) = w"
    by (rule min_absorb1)
  then have cx: "max 0 (min w (of_int \<lfloor>ieee (2 * sz)\<rfloor>)) = w"
    using w by (simp only: max_def) simp
  have "ieee (- sz) \<le> - 9 / 4"
    using quarters_between(2) [of "- 11" "- sz" "- 9"] sz by simp
  then have "ieee (- sz) < 0" by linarith
  then have "\<lfloor>ieee (- sz)\<rfloor> < 0"
    by (simp add: floor_less_iff)
  then have "real_of_int \<lfloor>ieee (- sz)\<rfloor> \<le> 0"
    by simp
  then have "min w (of_int \<lfloor>ieee (- sz)\<rfloor>) \<le> 0"
    by (simp only: min_le_iff_disj) simp
  then have cz: "max 0 (min w (of_int \<lfloor>ieee (- sz)\<rfloor>)) = 0"
    by (rule max_absorb1)
  have iw: "5 / 4 \<le> ieee w" "ieee w \<le> 7 / 4"
    using quarters_between [of 5 w 7] w by simp_all
  then have "\<lfloor>ieee w\<rfloor> = 1"
    by (simp add: floor_eq_iff)
  then have "ieee w \<noteq> of_int \<lfloor>ieee w\<rfloor>"
    using iw by simp
  then have none: "js_get sixSamples (ieee w) = None"
    by (simp add: js_get_def)
  have "getElevationAt (Some (snapshotWith (Some sixSamples) [] [])) 3000 (- 3000)
      = or0 (js_get sixSamples (ieee (ieee (0 * sz) + w)))"
    unfolding getElevationAt_def Let_def
    by (simp add: snapshotWith_def sz_def [symmetric] w_def [symmetric] nx nz cx cz)
  also have "\<dots> = 0"
    by (simp add: ieee_zero none or0_def)
  finally show ?thesis
    by (simp add: sixSamples_def)
qed

text \<open>
  At \<open>x = -420\<close> over a side of 100 the exact grid position is 29, the rounded quotient
  is just below 0.29, the rounded product just below 29, and the cell read is 28.
\<close>

lemma ieee_29_100: "ieee (29 / 100) = 5224175567749775 / 18014398509481984"
proof -
  have "ieee (29 / 100) = of_int (roundHalfEven ((29 / 100) / pow2 (- 2 - 52))) * pow2 (- 2 - 52)"
    by (rule ieee_binade) (simp_all add: pow2_def)
  then show ?thesis
    by (simp add: pow2_def roundHalfEven_def Let_def)
qed

lemma ieee_29_product:
  "ieee (5224175567749775 / 18014398509481984 * 100) = 8162774324609023 / 281474976710656"
proof -
  have "ieee (5224175567749775 / 18014398509481984 * 100)
      = of_int (roundHalfEven ((5224175567749775 / 18014398509481984 * 100) / pow2 (4 - 52)))
          * pow2 (4 - 52)"
    by (rule ieee_binade) (simp_all add: pow2_def)
  then show ?thesis
    by (simp add: pow2_def roundHalfEven_def Let_def)
qed

lemma clampedCell_100_minus_420: "clampedCell 100 (- 420) = 28"
proof -
  have nc: "normalizedCoord (- 420) = 5224175567749775 / 18014398509481984"
    by (simp add: normalizedCoord_def ieee_numeral ieee_29_100)
  have "ieee (normalizedCoord (- 420) * real 100)
      = ieee (5224175567749775 / 18014398509481984 * 100)"
    by (simp only: nc of_nat_numeral)
  also have "\<dots> = 8162774324609023 / 281474976710656"
    by (rule ieee_29_product)
  finally have q: "ieee (normalizedCoord (- 420) * real 100)
      = 8162774324609023 / 281474976710656" .
  have "\<lfloor>8162774324609023 / 281474976710656 :: real\<rfloor> = 28"
    by simp
  then have "\<lfloor>ieee (normalizedCoord (- 420) * real 100)\<rfloor> = 28"
    by (simp only: q)
  then show ?thesis
    unfolding clampedCell_def by simp
qed

text \<open>
  C8, amended. \<open>getElevationAt\<close> returns 0 when no snapshot or no raster is loaded. With
  a raster of \<open>n\<close> by \<open>n\<close> samples it returns the sample stored at one grid cell,
  without interpolation: per axis the coordinate is mapped to the range from 0 to 1,
  scaled, floored and clamped to the indices from 0 to \<open>n - 1\<close>, in the arithmetic of the
  machine. A coordinate at or below -1000 reads the first cell of its axis and one at or
  above 1000 the last, so a point outside the world reads the nearest edge sample. For a
  coordinate in between, the exact grid position lies in the cell read or within one
  part in \<open>2\<^sup>5\<^sup>1\<close> of it. The number of samples is below \<open>2\<^sup>5\<^sup>3\<close>, as the length of
  every array is.
\<close>

theorem getElevationAt_nearest_cell:
  "(\<forall>x z. getElevationAt None x z = 0)
   \<and> (\<forall>md x z. elevation md = None \<longrightarrow> getElevationAt (Some md) x z = 0)
   \<and> (\<forall>md elev n x z.
         elevation md = Some elev \<and> length elev = n * n \<and> 0 < n \<and> n * n < 2 ^ 53 \<longrightarrow>
         getElevationAt (Some md) x z = elev ! (clampedCell n z * n + clampedCell n x)
         \<and> clampedCell n x < n \<and> clampedCell n z < n
         \<and> clampedCell n z * n + clampedCell n x < length elev)
   \<and> (\<forall>n x. 0 < n \<and> x \<le> - 1000 \<longrightarrow> clampedCell n x = 0)
   \<and> (\<forall>n x. 0 < n \<and> n < 2 ^ 53 \<and> 1000 \<le> x \<longrightarrow> clampedCell n x = n - 1)
   \<and> (\<forall>n x. 0 < n \<and> - 1000 \<le> x \<and> x \<le> 1000 \<longrightarrow>
         real (clampedCell n x) \<le> gridCoord n x * (1 + 1 / 2 ^ 51)
         \<and> gridCoord n x * (1 - 1 / 2 ^ 51) < real (clampedCell n x) + 1)"
proof (intro conjI allI impI)
  fix x z :: real
  show "getElevationAt None x z = 0"
    by (simp add: getElevationAt_def)
next
  fix md :: MapData and x z :: real
  assume "elevation md = None"
  then show "getElevationAt (Some md) x z = 0"
    by (simp add: getElevationAt_def)
next
  fix md :: MapData and elev :: "real list" and n :: nat and x z :: real
  assume a: "elevation md = Some elev \<and> length elev = n * n \<and> 0 < n \<and> n * n < 2 ^ 53"
  then show "getElevationAt (Some md) x z = elev ! (clampedCell n z * n + clampedCell n x)"
    by (intro getElevationAt_cell) simp_all
  from a show "clampedCell n x < n" and "clampedCell n z < n"
    by (simp_all add: clampedCell_less)
  then show "clampedCell n z * n + clampedCell n x < length elev"
    using a cell_index_bound [of "clampedCell n x" n "clampedCell n z"] by simp
next
  fix n :: nat and x :: real
  assume "0 < n \<and> x \<le> - 1000"
  then show "clampedCell n x = 0"
    by (intro clampedCell_low) simp_all
next
  fix n :: nat and x :: real
  assume "0 < n \<and> n < 2 ^ 53 \<and> 1000 \<le> x"
  then show "clampedCell n x = n - 1"
    by (intro clampedCell_high) simp_all
next
  fix n :: nat and x :: real
  assume a: "0 < n \<and> - 1000 \<le> x \<and> x \<le> 1000"
  then show "real (clampedCell n x) \<le> gridCoord n x * (1 + 1 / 2 ^ 51)"
    by (intro clampedCell_near_gridCoord) simp_all
  from a show "gridCoord n x * (1 - 1 / 2 ^ 51) < real (clampedCell n x) + 1"
    by (intro clampedCell_near_gridCoord) simp_all
qed

text \<open>
  A raster of two by two samples: the point \<open>(500, -2000)\<close> lies outside the world on
  the \<open>z\<close> axis and reads column 1 of row 0. Over a side of 100 the coordinate -420 has
  the exact grid position 29 and reads cell 28.
\<close>

theorem getElevationAt_nearest_cell_witness:
  "elevation (snapshotWith (Some [10, 15, 20, 25]) [] []) = Some [10, 15, 20, 25]
   \<and> length [10, 15, 20, 25 :: real] = 2 * 2 \<and> (0::nat) < 2 \<and> (2 * 2 :: nat) < 2 ^ 53
   \<and> getElevationAt (Some (snapshotWith (Some [10, 15, 20, 25]) [] [])) 500 (- 2000) = 15
   \<and> (- 2000 :: real) \<le> - 1000 \<and> clampedCell 2 (- 2000) = 0
   \<and> (2 :: nat) < 2 ^ 53 \<and> (1000 :: real) \<le> 3000 \<and> clampedCell 2 3000 = 2 - 1
   \<and> (- 1000 :: real) \<le> 500 \<and> (500 :: real) \<le> 1000 \<and> clampedCell 2 500 = 1
   \<and> (0::nat) < 100 \<and> (- 1000 :: real) \<le> - 420 \<and> (- 420 :: real) \<le> 1000
   \<and> gridCoord 100 (- 420) = 29 \<and> clampedCell 100 (- 420) = 28
   \<and> real (clampedCell 100 (- 420)) \<le> gridCoord 100 (- 420) * (1 + 1 / 2 ^ 51)
   \<and> gridCoord 100 (- 420) * (1 - 1 / 2 ^ 51) < real (clampedCell 100 (- 420)) + 1
   \<and> elevation (snapshotWith None [] []) = None
   \<and> getElevationAt (Some (snapshotWith None [] [])) 500 (- 2000) = 0"
proof -
  note main = getElevationAt_nearest_cell
  have noRaster: "\<forall>md x z. elevation md = None \<longrightarrow> getElevationAt (Some md) x z = 0"
    using main by (elim conjE)
  have cell: "\<forall>md elev n x z.
         elevation md = Some elev \<and> length elev = n * n \<and> 0 < n \<and> n * n < 2 ^ 53 \<longrightarrow>
         getElevationAt (Some md) x z = elev ! (clampedCell n z * n + clampedCell n x)
         \<and> clampedCell n x < n \<and> clampedCell n z < n
         \<and> clampedCell n z * n + clampedCell n x < length elev"
    using main by (elim conjE)
  have low: "\<forall>n x. 0 < n \<and> x \<le> - 1000 \<longrightarrow> clampedCell n x = 0"
    using main by (elim conjE)
  have high: "\<forall>n x. 0 < n \<and> n < 2 ^ 53 \<and> 1000 \<le> x \<longrightarrow> clampedCell n x = n - 1"
    using main by (elim conjE)
  have near: "\<forall>n x. 0 < n \<and> - 1000 \<le> x \<and> x \<le> 1000 \<longrightarrow>
         real (clampedCell n x) \<le> gridCoord n x * (1 + 1 / 2 ^ 51)
         \<and> gridCoord n x * (1 - 1 / 2 ^ 51) < real (clampedCell n x) + 1"
    using main by (elim conjE)
  have e: "elevation (snapshotWith (Some [10, 15, 20, 25]) [] []) = Some [10, 15, 20, 25]"
    and e0: "elevation (snapshotWith None [] []) = None"
    by (simp_all add: snapshotWith_def)
  have c0: "clampedCell 2 (- 2000) = 0"
    using low [rule_format, of 2 "- 2000"] by simp
  have c2: "clampedCell 2 3000 = 2 - 1"
    using high [rule_format, of 2 3000] by simp
  have g: "gridCoord 2 500 = 3 / 2" and g100: "gridCoord 100 (- 420) = 29"
    by (simp_all add: gridCoord_def)
  have "real (clampedCell 2 500) \<le> 3 / 2 * (1 + 1 / 2 ^ 51)"
    and "3 / 2 * (1 - 1 / 2 ^ 51) < real (clampedCell 2 500) + 1"
    using near [rule_format, of 2 500] g by simp_all
  then have "real (clampedCell 2 500) < 2" and "0 < real (clampedCell 2 500)"
    by simp_all
  then have c1: "clampedCell 2 500 = 1"
    by linarith
  have v: "getElevationAt (Some (snapshotWith (Some [10, 15, 20, 25]) [] [])) 500 (- 2000) = 15"
    using cell [rule_format, of "snapshotWith (Some [10, 15, 20, 25]) [] []" "[10, 15, 20, 25]" 2
        500 "- 2000"] e c0 c1
    by simp
  have n100: "real (clampedCell 100 (- 420)) \<le> gridCoord 100 (- 420) * (1 + 1 / 2 ^ 51)
      \<and> gridCoord 100 (- 420) * (1 - 1 / 2 ^ 51) < real (clampedCell 100 (- 420)) + 1"
    using near [rule_format, of 100 "- 420"] by simp
  show ?thesis
    using e e0 c0 c1 c2 v g100 n100 clampedCell_100_minus_420
      noRaster [rule_format, OF e0, of 500 "- 2000"]
    by simp
qed

section \<open>Two calls of loadMapData, the second while the first is in flight\<close>





















end
